theory Spec2Isabelle
  imports Complex_Main "HOL-Library.Sublist"
begin

section \<open>Python values\<close>

text \<open>
  The pages handle JSON-shaped Python values throughout: responses of the two data
  providers, cache files, the product dictionaries. A dictionary is an association list
  in insertion order whose keys are pairwise different, as Python keeps it. A number
  is given by its value, a real: an int, or a finite float (Python's \<open>inf\<close> and
  \<open>nan\<close> are not values of the model). What Python computes from numbers is not
  computed on the reals here: the arithmetic the pages do on floats is taken from
  outside, see \<open>env\<close>. Strings are lists of characters.
\<close>

datatype pyval =
    PNone
  | PBool bool
  | PNum real
  | PStr string
  | PList "pyval list"
  | PDict "(pyval \<times> pyval) list"

text \<open>The exceptions the modelled code can meet. \<open>RequestError\<close> stands for everything
  \<open>session.get\<close>, \<open>raise_for_status\<close> and \<open>r.json()\<close> raise: a timeout, a
  connection error, a non-2xx status, a body that is not JSON. \<open>OSError\<close> stands for
  what \<open>open\<close> and \<open>json.load\<close>/\<open>json.dump\<close> raise on a cache file.\<close>

datatype error = KeyError | IndexError | AttributeError | TypeError | ValueError
  | OverflowError | NameError | RequestError | OSError

text \<open>Python's truth value of an object, as \<open>if cached:\<close> and \<open>if not pname:\<close> test it.\<close>

fun truthy :: "pyval \<Rightarrow> bool" where
  "truthy PNone = False"
| "truthy (PBool b) = b"
| "truthy (PNum x) = (x \<noteq> 0)"
| "truthy (PStr s) = (s \<noteq> [])"
| "truthy (PList xs) = (xs \<noteq> [])"
| "truthy (PDict kvs) = (kvs \<noteq> [])"

text \<open>\<open>d.get(k, dflt)\<close> with a string key: only a dictionary has the method.\<close>

definition dict_get :: "pyval \<Rightarrow> string \<Rightarrow> pyval \<Rightarrow> error + pyval" where
  "dict_get d k dflt =
     (case d of
        PDict kvs \<Rightarrow> Inr (case map_of kvs (PStr k) of Some v \<Rightarrow> v | None \<Rightarrow> dflt)
      | _ \<Rightarrow> Inl AttributeError)"

text \<open>\<open>d[k]\<close> with a string key: a missing key raises KeyError; a list or a string
  refuses a string index and the other values are not subscriptable (TypeError).\<close>

definition dict_item :: "pyval \<Rightarrow> string \<Rightarrow> error + pyval" where
  "dict_item d k =
     (case d of
        PDict kvs \<Rightarrow> (case map_of kvs (PStr k) of Some v \<Rightarrow> Inr v | None \<Rightarrow> Inl KeyError)
      | _ \<Rightarrow> Inl TypeError)"

text \<open>The value of an operand of arithmetic: \<open>bool\<close> is a subclass of \<open>int\<close>,
  and nothing else but a number is accepted beside a float.\<close>

definition py_num :: "pyval \<Rightarrow> error + real" where
  "py_num v =
     (case v of
        PNum x \<Rightarrow> Inr x
      | PBool b \<Rightarrow> Inr (if b then 1 else 0)
      | _ \<Rightarrow> Inl TypeError)"

text \<open>\<open>v == 1\<close>: true of the number one and of \<open>True\<close>.\<close>

definition py_eq_1 :: "pyval \<Rightarrow> bool" where
  "py_eq_1 v = (v = PNum 1 \<or> v = PBool True)"

text \<open>Sequencing of operations that can raise.\<close>

definition ebind :: "error + 'a \<Rightarrow> ('a \<Rightarrow> error + 'b) \<Rightarrow> error + 'b" where
  "ebind r f = (case r of Inl e \<Rightarrow> Inl e | Inr v \<Rightarrow> f v)"

text \<open>Dictionary keys: lists and dictionaries are unhashable; \<open>True\<close> and 1, \<open>False\<close>
  and 0 are the same key.\<close>

definition hashable :: "pyval \<Rightarrow> bool" where
  "hashable k = (case k of PList xs \<Rightarrow> False | PDict kvs \<Rightarrow> False | _ \<Rightarrow> True)"

definition key_norm :: "pyval \<Rightarrow> pyval" where
  "key_norm k = (case k of PBool b \<Rightarrow> PNum (if b then 1 else 0) | _ \<Rightarrow> k)"

definition key_eq :: "pyval \<Rightarrow> pyval \<Rightarrow> bool" where
  "key_eq a b = (key_norm a = key_norm b)"

text \<open>\<open>d[k] = v\<close> on the entries of a dictionary: an equal key keeps its place and its
  key object, a new key goes last.\<close>

fun dict_store :: "(pyval \<times> pyval) list \<Rightarrow> pyval \<Rightarrow> pyval \<Rightarrow> (pyval \<times> pyval) list" where
  "dict_store [] k v = [(k, v)]"
| "dict_store ((k', v') # kvs) k v =
     (if key_eq k' k then (k', v) # kvs else (k', v') # dict_store kvs k v)"

definition dict_setitem ::
  "(pyval \<times> pyval) list \<Rightarrow> pyval \<Rightarrow> pyval \<Rightarrow> error + (pyval \<times> pyval) list" where
  "dict_setitem kvs k v = (if hashable k then Inr (dict_store kvs k v) else Inl TypeError)"

text \<open>\<open>d.update(u)\<close> with a dictionary \<open>u\<close>: its entries are stored in their order.\<close>

definition dict_update ::
  "(pyval \<times> pyval) list \<Rightarrow> (pyval \<times> pyval) list \<Rightarrow> (pyval \<times> pyval) list" where
  "dict_update kvs u = fold (\<lambda>(k, v) acc. dict_store acc k v) u kvs"

section \<open>The world the pages run in\<close>

text \<open>
  A cache file either holds a JSON document or cannot be read back as one (it is
  truncated, is not JSON, or cannot be opened). The storage medium is healthy, refuses
  to open a file for writing, or fails while the document is written, which leaves a
  truncated file behind.
\<close>

datatype stored = Unreadable | Content pyval

datatype medium = Healthy | OpenFails | WriteFails

text \<open>A request is named by its endpoint and arguments. Either no response arrives
  (timeout, connection error), or a reply does: whether its status is a success, and its
  body decoded as JSON if it is JSON.\<close>

datatype request =
    OffProduct string
  | OffSearch string
  | UsdaSearch pyval pyval
  | UsdaFood pyval pyval

datatype response = NoResponse | Reply bool "pyval option"

text \<open>What the page shows through \<open>st.error\<close> and \<open>st.warning\<close>.\<close>

datatype ui_msg =
    OffError error
  | UsdaError error
  | UsdaProcessError error
  | UsdaWarning error
  | NoProductFound string

record world =
  files :: "string \<rightharpoonup> stored"
  medium :: medium
  clock :: real
  requests :: "request list"
  sleeps :: "real list"
  ui :: "ui_msg list"
  product_data :: pyval
  chat_history :: "pyval list"
  scan_history :: "pyval list"

text \<open>
  What the code takes from outside: the MD5 hex digest, the outcome of the n-th network
  attempt (n counts the attempts made before it), the USDA key, and Python's arithmetic
  on numbers of which one is a float. \<open>py_sub a b\<close>, \<open>py_div a b\<close> and
  \<open>py_mul a b\<close> are what \<open>a - b\<close>, \<open>a / b\<close> and \<open>a * b\<close> evaluate to: the
  double nearest to the result, or OverflowError when an int operand is beyond the
  range of the doubles. \<open>num_str\<close> is the text of a number as a JSON object key
  (\<open>int.__repr__\<close>, \<open>float.__repr__\<close>).
\<close>

record env =
  md5 :: "string \<Rightarrow> string"
  net :: "nat \<Rightarrow> request \<Rightarrow> response"
  usda_api_key :: pyval
  py_sub :: "real \<Rightarrow> real \<Rightarrow> error + real"
  py_div :: "real \<Rightarrow> real \<Rightarrow> error + real"
  py_mul :: "real \<Rightarrow> real \<Rightarrow> error + real"
  num_str :: "real \<Rightarrow> string"

text \<open>A method is a function of the world that returns a value or raises, and the
  world it leaves.\<close>

type_synonym 'a prog = "world \<Rightarrow> (error + 'a) \<times> world"

definition pret :: "'a \<Rightarrow> 'a prog" where
  "pret v w = (Inr v, w)"

definition praise :: "error \<Rightarrow> 'a prog" where
  "praise e w = (Inl e, w)"

definition plift :: "error + 'a \<Rightarrow> 'a prog" where
  "plift r w = (r, w)"

definition pbind :: "'a prog \<Rightarrow> ('a \<Rightarrow> 'b prog) \<Rightarrow> 'b prog" where
  "pbind m f w = (case m w of (Inl e, w') \<Rightarrow> (Inl e, w') | (Inr v, w') \<Rightarrow> f v w')"

text \<open>\<open>try: m except Exception as e: h e\<close>.\<close>

definition pcatch :: "'a prog \<Rightarrow> (error \<Rightarrow> 'a prog) \<Rightarrow> 'a prog" where
  "pcatch m h w = (case m w of (Inl e, w') \<Rightarrow> h e w' | (Inr v, w') \<Rightarrow> (Inr v, w'))"

definition st_error :: "ui_msg \<Rightarrow> unit prog" where
  "st_error m w = (Inr (), w\<lparr>ui := ui w @ [m]\<rparr>)"

section \<open>The file cache of trial.py (DataFetcher)\<close>

definition CACHE_DIR :: string where
  "CACHE_DIR = ''~/.product_checker_cache''"

definition cache_path :: "env \<Rightarrow> string \<Rightarrow> string \<Rightarrow> string" where
  "cache_path E key src = CACHE_DIR @ ''/'' @ src @ ''_'' @ md5 E key @ ''.json''"

text \<open>
  What \<open>json.load\<close> reads back from what \<open>json.dump\<close> wrote. The encoder turns
  the keys of a dictionary into strings and raises TypeError on a key that is none of
  string, number, boolean and \<open>None\<close>; the decoder builds each dictionary from its
  pairs in order, so of two pairs with the same key text the first fixes the place and
  the last the value. Everything else comes back as it was.
\<close>

definition json_key :: "env \<Rightarrow> pyval \<Rightarrow> error + pyval" where
  "json_key E k =
     (case k of
        PStr s \<Rightarrow> Inr (PStr s)
      | PNum x \<Rightarrow> Inr (PStr (num_str E x))
      | PBool b \<Rightarrow> Inr (PStr (if b then ''true'' else ''false''))
      | PNone \<Rightarrow> Inr (PStr ''null'')
      | _ \<Rightarrow> Inl TypeError)"

fun json_image :: "env \<Rightarrow> pyval \<Rightarrow> error + pyval"
  and json_images :: "env \<Rightarrow> pyval list \<Rightarrow> error + pyval list"
  and json_entries :: "env \<Rightarrow> (pyval \<times> pyval) list \<Rightarrow> error + (pyval \<times> pyval) list"
where
  "json_image E PNone = Inr PNone"
| "json_image E (PBool b) = Inr (PBool b)"
| "json_image E (PNum x) = Inr (PNum x)"
| "json_image E (PStr s) = Inr (PStr s)"
| "json_image E (PList xs) = ebind (json_images E xs) (\<lambda>ys. Inr (PList ys))"
| "json_image E (PDict kvs) = ebind (json_entries E kvs) (\<lambda>es. Inr (PDict (dict_update [] es)))"
| "json_images E [] = Inr []"
| "json_images E (x # xs) =
     ebind (json_image E x) (\<lambda>y. ebind (json_images E xs) (\<lambda>ys. Inr (y # ys)))"
| "json_entries E [] = Inr []"
| "json_entries E ((k, v) # kvs) =
     ebind (json_key E k) (\<lambda>k'.
     ebind (json_image E v) (\<lambda>v'.
     ebind (json_entries E kvs) (\<lambda>es. Inr ((k', v') # es))))"

text \<open>\<open>open(p)\<close> and \<open>json.load(f)\<close>.\<close>

definition read_json :: "stored \<Rightarrow> error + pyval" where
  "read_json s = (case s of Unreadable \<Rightarrow> Inl OSError | Content c \<Rightarrow> Inr c)"

text \<open>The body of the \<open>try\<close> of \<open>_load_cache\<close>: \<open>Some d\<close> is \<open>return d\<close>, \<open>None\<close>
  leaves the block without returning.\<close>

definition load_try :: "env \<Rightarrow> stored \<Rightarrow> real \<Rightarrow> real \<Rightarrow> error + pyval option" where
  "load_try E s now max_age =
     (case read_json s of
        Inl e \<Rightarrow> Inl e
      | Inr c \<Rightarrow>
         (case dict_get c ''cache_time'' (PNum 0) of
            Inl e \<Rightarrow> Inl e
          | Inr t \<Rightarrow>
             (case py_num t of
                Inl e \<Rightarrow> Inl e
              | Inr ts \<Rightarrow>
                 (case py_sub E now ts of
                    Inl e \<Rightarrow> Inl e
                  | Inr age \<Rightarrow>
                     if age \<le> max_age
                     then (case dict_get c ''data'' PNone of
                             Inl e \<Rightarrow> Inl e
                           | Inr d \<Rightarrow> Inr (Some d))
                     else Inr None))))"

definition load_cache :: "env \<Rightarrow> string \<Rightarrow> string \<Rightarrow> real \<Rightarrow> pyval prog" where
  "load_cache E key src max_age w =
     (case files w (cache_path E key src) of
        None \<Rightarrow> (Inr PNone, w)
      | Some s \<Rightarrow>
         (case load_try E s (clock w) max_age of
            Inl e \<Rightarrow> (Inr PNone, w)
          | Inr None \<Rightarrow> (Inr PNone, w)
          | Inr (Some d) \<Rightarrow> (Inr d, w)))"

text \<open>\<open>with open(p,'w') as f: json.dump(doc, f)\<close>. Opening truncates the file, so an
  encoder that raises leaves a file that cannot be read back.\<close>

definition write_json :: "env \<Rightarrow> string \<Rightarrow> pyval \<Rightarrow> unit prog" where
  "write_json E p doc w =
     (case medium w of
        Healthy \<Rightarrow>
          (case json_image E doc of
             Inr doc' \<Rightarrow> (Inr (), w\<lparr>files := (files w)(p \<mapsto> Content doc')\<rparr>)
           | Inl e \<Rightarrow> (Inl e, w\<lparr>files := (files w)(p \<mapsto> Unreadable)\<rparr>))
      | OpenFails \<Rightarrow> (Inl OSError, w)
      | WriteFails \<Rightarrow> (Inl OSError, w\<lparr>files := (files w)(p \<mapsto> Unreadable)\<rparr>))"

definition save_cache :: "env \<Rightarrow> string \<Rightarrow> string \<Rightarrow> pyval \<Rightarrow> unit prog" where
  "save_cache E key src data w =
     pcatch
       (write_json E (cache_path E key src)
          (PDict [(PStr ''data'', data), (PStr ''cache_time'', PNum (clock w))]))
       (\<lambda>e. pret ()) w"

section \<open>The file cache of trial.py (AIAnalyzer)\<close>

definition ai_cache_path :: "env \<Rightarrow> string \<Rightarrow> string \<Rightarrow> string \<Rightarrow> string" where
  "ai_cache_path E atype pname bname =
     CACHE_DIR @ ''/'' @ atype @ ''_'' @ md5 E (pname @ ''_'' @ bname) @ ''.json''"

definition ai_load_cache :: "env \<Rightarrow> string \<Rightarrow> string \<Rightarrow> string \<Rightarrow> real \<Rightarrow> pyval prog" where
  "ai_load_cache E atype pname bname max_age w =
     (case files w (ai_cache_path E atype pname bname) of
        None \<Rightarrow> (Inr PNone, w)
      | Some s \<Rightarrow>
         (case load_try E s (clock w) max_age of
            Inl e \<Rightarrow> (Inr PNone, w)
          | Inr None \<Rightarrow> (Inr PNone, w)
          | Inr (Some d) \<Rightarrow> (Inr d, w)))"

definition ai_save_cache :: "env \<Rightarrow> string \<Rightarrow> string \<Rightarrow> string \<Rightarrow> pyval \<Rightarrow> unit prog" where
  "ai_save_cache E atype pname bname data w =
     pcatch
       (write_json E (ai_cache_path E atype pname bname)
          (PDict [(PStr ''data'', data), (PStr ''cache_time'', PNum (clock w))]))
       (\<lambda>e. pret ()) w"

section \<open>The file cache of barcodescanner.py (OpenFoodFactsFetcher)\<close>

definition SCANNER_CACHE_DIR :: string where
  "SCANNER_CACHE_DIR = ''~/.product_analyzer_cache''"

definition get_cache_key :: "env \<Rightarrow> string \<Rightarrow> string" where
  "get_cache_key E barcode = md5 E (''off_'' @ barcode)"

definition scanner_cache_file :: "env \<Rightarrow> string \<Rightarrow> string" where
  "scanner_cache_file E barcode = SCANNER_CACHE_DIR @ ''/'' @ get_cache_key E barcode @ ''.json''"

definition scanner_load_try :: "env \<Rightarrow> stored \<Rightarrow> real \<Rightarrow> error + pyval option" where
  "scanner_load_try E s now =
     (case read_json s of
        Inl e \<Rightarrow> Inl e
      | Inr c \<Rightarrow>
         (case dict_get c ''timestamp'' (PNum 0) of
            Inl e \<Rightarrow> Inl e
          | Inr t \<Rightarrow>
             (case py_num t of
                Inl e \<Rightarrow> Inl e
              | Inr ts \<Rightarrow>
                 (case py_sub E now ts of
                    Inl e \<Rightarrow> Inl e
                  | Inr age \<Rightarrow>
                     if age < 86400
                     then (case dict_get c ''product'' PNone of
                             Inl e \<Rightarrow> Inl e
                           | Inr d \<Rightarrow> Inr (Some d))
                     else Inr None))))"

definition scanner_load_cache :: "env \<Rightarrow> string \<Rightarrow> pyval prog" where
  "scanner_load_cache E barcode w =
     (case files w (scanner_cache_file E barcode) of
        None \<Rightarrow> (Inr PNone, w)
      | Some s \<Rightarrow>
         (case scanner_load_try E s (clock w) of
            Inl e \<Rightarrow> (Inr PNone, w)
          | Inr None \<Rightarrow> (Inr PNone, w)
          | Inr (Some d) \<Rightarrow> (Inr d, w)))"

definition scanner_save_cache :: "env \<Rightarrow> string \<Rightarrow> pyval \<Rightarrow> unit prog" where
  "scanner_save_cache E barcode product w =
     pcatch
       (write_json E (scanner_cache_file E barcode)
          (PDict [(PStr ''product'', product), (PStr ''timestamp'', PNum (clock w))]))
       (\<lambda>e. pret ()) w"

text \<open>Time passing between two calls.\<close>

definition elapse :: "real \<Rightarrow> world \<Rightarrow> world" where
  "elapse dt w = w\<lparr>clock := clock w + dt\<rparr>"

section \<open>Network access with retries (DataFetcher._get)\<close>

text \<open>One \<open>session.get\<close>, \<open>raise_for_status\<close>, \<open>r.json()\<close>. The attempt is logged;
  the time the request itself takes is not counted on the clock.\<close>

definition attempt :: "env \<Rightarrow> request \<Rightarrow> pyval prog" where
  "attempt E rq w =
     (case net E (length (requests w)) rq of
        NoResponse \<Rightarrow> (Inl RequestError, w\<lparr>requests := requests w @ [rq]\<rparr>)
      | Reply ok body \<Rightarrow>
          (if \<not> ok then (Inl RequestError, w\<lparr>requests := requests w @ [rq]\<rparr>)
           else (case body of
                   None \<Rightarrow> (Inl RequestError, w\<lparr>requests := requests w @ [rq]\<rparr>)
                 | Some v \<Rightarrow> (Inr v, w\<lparr>requests := requests w @ [rq]\<rparr>))))"

definition sleep :: "real \<Rightarrow> unit prog" where
  "sleep secs w = (Inr (), w\<lparr>clock := clock w + secs, sleeps := sleeps w @ [secs]\<rparr>)"

text \<open>\<open>for i in range(3)\<close>, as a recursion over the indices still to run. A loop that
  ends without returning makes the method return \<open>None\<close>.\<close>

fun get_loop :: "env \<Rightarrow> request \<Rightarrow> nat list \<Rightarrow> pyval prog" where
  "get_loop E rq [] = pret PNone"
| "get_loop E rq (i # rest) =
     pcatch (attempt E rq)
       (\<lambda>e. if i = 2 then praise e
            else pbind (sleep (real (1 * (i + 1)))) (\<lambda>u. get_loop E rq rest))"

definition http_get :: "env \<Rightarrow> request \<Rightarrow> pyval prog" where
  "http_get E rq = get_loop E rq [0, 1, 2]"

section \<open>String and container operations\<close>

text \<open>Case mapping is that of the ASCII letters; other characters are left as they are.\<close>

definition is_upper :: "char \<Rightarrow> bool" where
  "is_upper c = (65 \<le> (of_char c :: nat) \<and> (of_char c :: nat) \<le> 90)"

definition is_lower :: "char \<Rightarrow> bool" where
  "is_lower c = (97 \<le> (of_char c :: nat) \<and> (of_char c :: nat) \<le> 122)"

definition ch_upper :: "char \<Rightarrow> char" where
  "ch_upper c = (if is_lower c then char_of ((of_char c :: nat) - 32) else c)"

definition ch_lower :: "char \<Rightarrow> char" where
  "ch_lower c = (if is_upper c then char_of ((of_char c :: nat) + 32) else c)"

definition py_upper :: "string \<Rightarrow> string" where
  "py_upper s = map ch_upper s"

definition py_capitalize :: "string \<Rightarrow> string" where
  "py_capitalize s = (case s of [] \<Rightarrow> [] | c # cs \<Rightarrow> ch_upper c # map ch_lower cs)"

text \<open>\<open>str.title\<close>: a letter after a letter is lowered, any other letter is raised.\<close>

fun title_from :: "bool \<Rightarrow> string \<Rightarrow> string" where
  "title_from prev [] = []"
| "title_from prev (c # cs) =
     (if is_upper c \<or> is_lower c
      then (if prev then ch_lower c else ch_upper c) # title_from True cs
      else c # title_from False cs)"

definition py_title :: "string \<Rightarrow> string" where
  "py_title s = title_from False s"

text \<open>\<open>s.replace(old, new)\<close> for a non-empty \<open>old\<close>: occurrences are replaced from the
  left, without overlap.\<close>

function replace_from :: "string \<Rightarrow> string \<Rightarrow> string \<Rightarrow> string" where
  "replace_from old new [] = []"
| "replace_from old new (c # cs) =
     (if old \<noteq> [] \<and> take (length old) (c # cs) = old
      then new @ replace_from old new (drop (length old) (c # cs))
      else c # replace_from old new cs)"
  by pat_completeness auto
termination
  by (relation "measure (\<lambda>(old, new, s). length s)") auto

definition py_replace :: "string \<Rightarrow> string \<Rightarrow> string \<Rightarrow> string" where
  "py_replace old new s =
     (if old = [] then new @ concat (map (\<lambda>c. c # new) s) else replace_from old new s)"

text \<open>\<open>a in s\<close> for strings.\<close>

definition is_substring :: "string \<Rightarrow> string \<Rightarrow> bool" where
  "is_substring a s = list_ex (\<lambda>i. take (length a) (drop i s) = a) [0..<Suc (length s)]"

text \<open>A comprehension \<open>[f x for x in xs]\<close> stops at the first element that raises.\<close>

fun map_err :: "('a \<Rightarrow> error + 'b) \<Rightarrow> 'a list \<Rightarrow> error + 'b list" where
  "map_err f [] = Inr []"
| "map_err f (x # xs) = ebind (f x) (\<lambda>y. ebind (map_err f xs) (\<lambda>ys. Inr (y # ys)))"

text \<open>Iterating a value: a list gives its elements, a string its characters, a
  dictionary its keys; nothing else is iterable.\<close>

definition py_iter :: "pyval \<Rightarrow> error + pyval list" where
  "py_iter v =
     (case v of
        PList xs \<Rightarrow> Inr xs
      | PStr s \<Rightarrow> Inr (map (\<lambda>c. PStr [c]) s)
      | PDict kvs \<Rightarrow> Inr (map fst kvs)
      | _ \<Rightarrow> Inl TypeError)"

definition py_len :: "pyval \<Rightarrow> error + nat" where
  "py_len v =
     (case v of
        PList xs \<Rightarrow> Inr (length xs)
      | PStr s \<Rightarrow> Inr (length s)
      | PDict kvs \<Rightarrow> Inr (length kvs)
      | _ \<Rightarrow> Inl TypeError)"

text \<open>\<open>x[0]\<close>.\<close>

definition py_index0 :: "pyval \<Rightarrow> error + pyval" where
  "py_index0 v =
     (case v of
        PList xs \<Rightarrow> (case xs of [] \<Rightarrow> Inl IndexError | x # rest \<Rightarrow> Inr x)
      | PStr s \<Rightarrow> (case s of [] \<Rightarrow> Inl IndexError | c # rest \<Rightarrow> Inr (PStr [c]))
      | PDict kvs \<Rightarrow>
          (case map_of kvs (PNum 0) of
             Some x \<Rightarrow> Inr x
           | None \<Rightarrow> (case map_of kvs (PBool False) of Some x \<Rightarrow> Inr x | None \<Rightarrow> Inl KeyError))
      | _ \<Rightarrow> Inl TypeError)"

text \<open>String methods called on a value: only a string has them.\<close>

definition str_method :: "(string \<Rightarrow> string) \<Rightarrow> pyval \<Rightarrow> error + pyval" where
  "str_method f v = (case v of PStr s \<Rightarrow> Inr (PStr (f s)) | _ \<Rightarrow> Inl AttributeError)"

text \<open>\<open>a in v\<close> with a string on the left.\<close>

definition py_contains :: "string \<Rightarrow> pyval \<Rightarrow> error + bool" where
  "py_contains a v =
     (case v of
        PStr s \<Rightarrow> Inr (is_substring a s)
      | PList xs \<Rightarrow> Inr (PStr a \<in> set xs)
      | PDict kvs \<Rightarrow> Inr (PStr a \<in> set (map fst kvs))
      | _ \<Rightarrow> Inl TypeError)"

section \<open>Open Food Facts and USDA lookups of trial.py (DataFetcher)\<close>

text \<open>The seven values the fetchers return as a tuple.\<close>

record info =
  i_name :: pyval
  i_brand :: pyval
  i_category :: pyval
  i_origin :: pyval
  i_details :: pyval
  i_image :: pyval
  i_allergens :: pyval

definition none7 :: info where
  "none7 = \<lparr>i_name = PNone, i_brand = PNone, i_category = PNone, i_origin = PNone,
            i_details = PNone, i_image = PNone, i_allergens = PNone\<rparr>"

text \<open>\<open>[a.replace("en:","") for a in p.get(key, [])]\<close>.\<close>

definition strip_en_list :: "pyval \<Rightarrow> string \<Rightarrow> error + pyval" where
  "strip_en_list p key =
     ebind (dict_get p key (PList [])) (\<lambda>tags.
     ebind (py_iter tags) (\<lambda>xs.
     ebind (map_err (str_method (py_replace ''en:'' [])) xs) (\<lambda>ys. Inr (PList ys))))"

definition off_category :: "pyval \<Rightarrow> error + pyval" where
  "off_category p =
     ebind (dict_get p ''categories_tags'' PNone) (\<lambda>c.
       if truthy c
       then ebind (dict_get p ''categories_tags'' (PList [PStr ''unknown''])) (\<lambda>tags.
            ebind (py_index0 tags) (\<lambda>t.
            ebind (str_method (py_replace ''en:'' []) t) (\<lambda>t'.
            str_method py_capitalize t')))
       else Inr (PStr ''Unknown''))"

definition off_details :: "pyval \<Rightarrow> pyval \<Rightarrow> pyval \<Rightarrow> error + pyval" where
  "off_details p img allergens =
     ebind (dict_get p ''ingredients_text'' (PStr ''Not available'')) (\<lambda>ingredients.
     ebind (dict_get p ''ingredients'' (PList [])) (\<lambda>ings.
     ebind (py_iter ings) (\<lambda>is.
     ebind (map_err (\<lambda>i. dict_get i ''text'' (PStr [])) is) (\<lambda>ingredients_list.
     ebind (dict_get p ''nutriments'' (PDict [])) (\<lambda>nutriments.
     ebind (dict_get p ''nutrition_grades'' (PStr [])) (\<lambda>nutrition_grades.
     ebind (dict_get p ''nova_group'' (PStr [])) (\<lambda>nova_group.
     ebind (dict_get p ''ecoscore_grade'' (PStr [])) (\<lambda>ecoscore_grade.
     ebind (dict_get p ''packaging'' (PStr ''Not specified'')) (\<lambda>packaging.
     ebind (dict_get p ''manufacturing_places'' (PStr ''Not specified'')) (\<lambda>places.
     ebind (strip_en_list p ''additives_tags'') (\<lambda>additives_tags.
     ebind (dict_get p ''labels'' (PStr [])) (\<lambda>labels.
     ebind (dict_get p ''serving_size'' (PStr ''Not specified'')) (\<lambda>serving_size.
     ebind (dict_get p ''stores'' (PStr ''Not specified'')) (\<lambda>stores.
     ebind (dict_get p ''traces'' (PStr [])) (\<lambda>traces.
     Inr (PDict
       [(PStr ''ingredients'', ingredients),
        (PStr ''ingredients_list'', PList ingredients_list),
        (PStr ''nutriments'', nutriments),
        (PStr ''nutrition_grades'', nutrition_grades),
        (PStr ''nova_group'', nova_group),
        (PStr ''ecoscore_grade'', ecoscore_grade),
        (PStr ''packaging'', packaging),
        (PStr ''manufacturing_places'', places),
        (PStr ''additives_tags'', additives_tags),
        (PStr ''labels'', labels),
        (PStr ''allergens'', allergens),
        (PStr ''serving_size'', serving_size),
        (PStr ''stores'', stores),
        (PStr ''image_url'', img),
        (PStr ''traces'', traces)]))))))))))))))))"

definition extract_off :: "pyval \<Rightarrow> error + info" where
  "extract_off data =
     ebind (dict_get data ''status'' PNone) (\<lambda>status.
       if \<not> py_eq_1 status then Inr none7
       else
         ebind (dict_item data ''product'') (\<lambda>p.
         ebind (dict_get p ''product_name'' (PStr ''Unknown Product'')) (\<lambda>name.
         ebind (dict_get p ''brands'' (PStr ''Unknown Brand'')) (\<lambda>brand.
         ebind (off_category p) (\<lambda>category.
         ebind (dict_get p ''countries'' (PStr ''Unknown'')) (\<lambda>origin.
         ebind (dict_get p ''image_url'' PNone) (\<lambda>img.
         ebind (strip_en_list p ''allergens_tags'') (\<lambda>allergens.
         ebind (off_details p img allergens) (\<lambda>details.
         Inr \<lparr>i_name = name, i_brand = brand, i_category = category, i_origin = origin,
              i_details = details, i_image = img, i_allergens = allergens\<rparr>)))))))))"

definition fetch_from_open_food_facts :: "env \<Rightarrow> string \<Rightarrow> info prog" where
  "fetch_from_open_food_facts E barcode =
     pbind (load_cache E barcode ''off'' 86400) (\<lambda>cached.
       if truthy cached then plift (extract_off cached)
       else
         pcatch
           (pbind (http_get E (OffProduct barcode)) (\<lambda>data.
            pbind (plift (dict_get data ''status'' PNone)) (\<lambda>status.
              if py_eq_1 status
              then pbind (save_cache E barcode ''off'' data) (\<lambda>u. plift (extract_off data))
              else pret none7)))
           (\<lambda>e. pbind (st_error (OffError e)) (\<lambda>u. pret none7)))"

text \<open>The loop that fills \<open>ndisp\<close> in \<open>_extract_usda\<close>.\<close>

fun nutrients_display :: "pyval list \<Rightarrow> (pyval \<times> pyval) list \<Rightarrow> error + (pyval \<times> pyval) list" where
  "nutrients_display [] ndisp = Inr ndisp"
| "nutrients_display (n # ns) ndisp =
     ebind (py_contains ''nutrientName'' n) (\<lambda>has_name.
     ebind (if has_name then py_contains ''value'' n else Inr False) (\<lambda>both.
       if both
       then ebind (dict_item n ''value'') (\<lambda>v.
            ebind (dict_get n ''unitName'' (PStr [])) (\<lambda>unit.
            ebind (dict_item n ''nutrientName'') (\<lambda>k.
            ebind (dict_setitem ndisp k (PDict [(PStr ''value'', v), (PStr ''unit'', unit)])) (\<lambda>ndisp'.
            nutrients_display ns ndisp'))))
       else nutrients_display ns ndisp))"

text \<open>The body of the \<open>try\<close> of \<open>_extract_usda\<close>.\<close>

definition extract_usda_try :: "pyval \<Rightarrow> error + info" where
  "extract_usda_try combined =
     ebind (dict_get combined ''search_result'' (PDict [])) (\<lambda>search.
     ebind (dict_get combined ''detail'' (PDict [])) (\<lambda>detail.
     ebind (dict_get search ''foods'' PNone) (\<lambda>foods.
       if \<not> truthy foods then Inr none7
       else
         ebind (dict_item search ''foods'') (\<lambda>fs.
         ebind (py_index0 fs) (\<lambda>food.
         ebind (dict_get food ''description'' (PStr ''Unknown'')) (\<lambda>name.
         ebind (dict_get food ''brandOwner'' (PStr ''Unknown Brand'')) (\<lambda>brand.
         ebind (dict_get food ''foodCategory'' (PStr ''Unknown'')) (\<lambda>cat.
         ebind (dict_get detail ''marketCountry'' (PStr ''Unknown'')) (\<lambda>orig.
         ebind (dict_get detail ''ingredients'' (PStr ''Not available'')) (\<lambda>ings.
         ebind (dict_get detail ''foodNutrients'' (PList [])) (\<lambda>fn.
         ebind (py_iter fn) (\<lambda>ns.
         ebind (nutrients_display ns []) (\<lambda>ndisp.
         ebind (dict_get detail ''servingSize'' (PStr ''Not specified'')) (\<lambda>serving_size.
         ebind (dict_get detail ''servingSizeUnit'' (PStr [])) (\<lambda>serving_unit.
         Inr \<lparr>i_name = name, i_brand = brand, i_category = cat, i_origin = orig,
              i_details = PDict
                [(PStr ''ingredients'', ings),
                 (PStr ''foodNutrients'', fn),
                 (PStr ''nutrients_display'', PDict ndisp),
                 (PStr ''ingredients_list'', PList []),
                 (PStr ''serving_size'', serving_size),
                 (PStr ''serving_unit'', serving_unit),
                 (PStr ''additives_tags'', PList []),
                 (PStr ''labels'', PStr []),
                 (PStr ''packaging'', PStr ''Not specified''),
                 (PStr ''ecoscore_grade'', PStr []),
                 (PStr ''nutrition_grades'', PStr []),
                 (PStr ''nova_group'', PStr []),
                 (PStr ''nutriments'', PDict []),
                 (PStr ''allergens'', PList []),
                 (PStr ''traces'', PStr []),
                 (PStr ''image_url'', PNone)],
              i_image = PNone, i_allergens = PList []\<rparr>)))))))))))))))"

definition extract_usda :: "pyval \<Rightarrow> info prog" where
  "extract_usda combined =
     pcatch (plift (extract_usda_try combined))
       (\<lambda>e. pbind (st_error (UsdaProcessError e)) (\<lambda>u. pret none7))"

definition fetch_from_usda :: "env \<Rightarrow> string \<Rightarrow> info prog" where
  "fetch_from_usda E barcode =
     pbind (load_cache E barcode ''usda'' 86400) (\<lambda>cached.
       if truthy cached then extract_usda cached
       else
         pcatch
           (pbind (http_get E (UsdaSearch (usda_api_key E) (PStr barcode))) (\<lambda>search.
            pbind (plift (dict_get search ''foods'' PNone)) (\<lambda>foods.
              if \<not> truthy foods then pret none7
              else
                pbind (plift (ebind (dict_item search ''foods'') (\<lambda>fs.
                              ebind (py_index0 fs) (\<lambda>food. dict_item food ''fdcId'')))) (\<lambda>fid.
                pbind (http_get E (UsdaFood (usda_api_key E) fid)) (\<lambda>detail.
                pbind (save_cache E barcode ''usda''
                         (PDict [(PStr ''search_result'', search), (PStr ''detail'', detail)])) (\<lambda>u.
                extract_usda
                  (PDict [(PStr ''search_result'', search), (PStr ''detail'', detail)])))))))
           (\<lambda>e. pbind (st_error (UsdaError e)) (\<lambda>u. pret none7)))"

section \<open>Resolving a barcode in trial.py (process_barcode)\<close>

definition product_obj :: "info \<Rightarrow> string \<Rightarrow> pyval" where
  "product_obj t bc =
     PDict
       [(PStr ''product_name'', i_name t),
        (PStr ''brand_name'', i_brand t),
        (PStr ''category'', i_category t),
        (PStr ''origin'', i_origin t),
        (PStr ''details'', i_details t),
        (PStr ''image_url'', i_image t),
        (PStr ''allergens'', i_allergens t),
        (PStr ''barcode'', PStr bc)]"

text \<open>The session state after a product was found. Membership in the scan history
  compares the dictionaries entry by entry.\<close>

definition store_product :: "pyval \<Rightarrow> unit prog" where
  "store_product obj w =
     (Inr (),
      w\<lparr>product_data := obj,
        chat_history := [],
        scan_history := (if obj \<in> set (scan_history w) then scan_history w
                         else scan_history w @ [obj])\<rparr>)"

definition process_barcode :: "env \<Rightarrow> string \<Rightarrow> unit prog" where
  "process_barcode E bc =
     pbind (fetch_from_open_food_facts E bc) (\<lambda>t1.
     pbind (if \<not> truthy (i_name t1) then fetch_from_usda E bc else pret t1) (\<lambda>t.
       if truthy (i_name t) then store_product (product_obj t bc)
       else st_error (NoProductFound bc)))"

section \<open>Lookup and enrichment in barcodescanner.py\<close>

text \<open>The dictionary \<open>fetch_product\<close> builds from the \<open>product\<close> part of a response.\<close>

definition scanner_tags :: "(string \<Rightarrow> string) \<Rightarrow> pyval \<Rightarrow> string \<Rightarrow> error + pyval" where
  "scanner_tags f pd key =
     ebind (dict_get pd key (PList [])) (\<lambda>tags.
     ebind (py_iter tags) (\<lambda>xs.
     ebind (map_err (str_method f) xs) (\<lambda>ys. Inr (PList ys))))"

definition scanner_result :: "string \<Rightarrow> pyval \<Rightarrow> error + pyval" where
  "scanner_result barcode pd =
     ebind (dict_get pd ''product_name'' (PStr ''Unknown Product'')) (\<lambda>name.
     ebind (dict_get pd ''brands'' (PStr ''Unknown Brand'')) (\<lambda>brand.
     ebind (dict_get pd ''categories'' (PStr ''Unknown'')) (\<lambda>category.
     ebind (dict_get pd ''image_url'' PNone) (\<lambda>image.
     ebind (dict_get pd ''ingredients_text'' (PStr ''Not available'')) (\<lambda>ingredients.
     ebind (dict_get pd ''ingredients'' (PList [])) (\<lambda>ings.
     ebind (py_iter ings) (\<lambda>is.
     ebind (map_err (\<lambda>i. dict_get i ''text'' (PStr [])) is) (\<lambda>ingredients_list.
     ebind (dict_get pd ''nutriments'' (PDict [])) (\<lambda>nutrients.
     ebind (dict_get pd ''nutrition_grades'' (PStr [])) (\<lambda>grade.
     ebind (str_method py_upper grade) (\<lambda>nutri_score.
     ebind (dict_get pd ''nova_group'' PNone) (\<lambda>nova_group.
     ebind (dict_get pd ''ecoscore_grade'' (PStr [])) (\<lambda>eco.
     ebind (str_method py_upper eco) (\<lambda>ecoscore.
     ebind (scanner_tags (\<lambda>a. py_title (py_replace ''-'' '' '' (py_replace ''en:'' [] a)))
              pd ''allergens_tags'') (\<lambda>allergens.
     ebind (scanner_tags (\<lambda>a. py_upper (py_replace ''en:'' [] a)) pd ''additives_tags'') (\<lambda>additives.
     ebind (dict_get pd ''labels'' (PStr [])) (\<lambda>labels.
     ebind (dict_get pd ''packaging'' (PStr [])) (\<lambda>packaging.
     ebind (dict_get pd ''countries'' (PStr ''Unknown'')) (\<lambda>origin.
     Inr (PDict
       [(PStr ''barcode'', PStr barcode),
        (PStr ''name'', name),
        (PStr ''brand'', brand),
        (PStr ''category'', category),
        (PStr ''image'', image),
        (PStr ''ingredients'', ingredients),
        (PStr ''ingredients_list'', PList ingredients_list),
        (PStr ''nutrients'', nutrients),
        (PStr ''nutri_score'', nutri_score),
        (PStr ''nova_group'', nova_group),
        (PStr ''ecoscore'', ecoscore),
        (PStr ''allergens'', allergens),
        (PStr ''additives'', additives),
        (PStr ''labels'', labels),
        (PStr ''packaging'', packaging),
        (PStr ''origin'', origin)]))))))))))))))))))))"

text \<open>The body of \<open>fetch_product\<close>: one attempt, no retry. (Streamlit's memoisation of
  the method's results, which wraps this body, is not part of the model.)\<close>

definition fetch_product :: "env \<Rightarrow> string \<Rightarrow> pyval prog" where
  "fetch_product E barcode =
     pbind (scanner_load_cache E barcode) (\<lambda>cached.
       if truthy cached then pret cached
       else
         pcatch
           (pbind (attempt E (OffProduct barcode)) (\<lambda>data.
            pbind (plift (dict_get data ''status'' PNone)) (\<lambda>status.
              if py_eq_1 status
              then pbind (plift (ebind (dict_item data ''product'')
                                   (scanner_result barcode))) (\<lambda>result.
                   pbind (scanner_save_cache E barcode result) (\<lambda>u. pret result))
              else pret PNone)))
           (\<lambda>e. pbind (st_error (OffError e)) (\<lambda>u. pret PNone)))"

text \<open>The \<open>if\<close>/\<open>elif\<close> chain of \<open>USDAFetcher.fetch_nutrition\<close>: the key and value one
  USDA nutrient is stored under, if any.\<close>

definition nutrient_slot ::
  "env \<Rightarrow> pyval \<Rightarrow> pyval \<Rightarrow> pyval \<Rightarrow> error + (string \<times> pyval) option" where
  "nutrient_slot E name val unit =
     ebind (py_contains ''Energy'' name) (\<lambda>is_energy.
     ebind (if is_energy then ebind (str_method py_upper unit) (py_contains ''KCAL'')
            else Inr False) (\<lambda>kcal.
       if kcal then Inr (Some (''energy-kcal_100g'', val))
       else
     ebind (py_contains ''Protein'' name) (\<lambda>protein.
       if protein then Inr (Some (''proteins_100g'', val))
       else
     ebind (py_contains ''Carbohydrate'' name) (\<lambda>carb.
       if carb then Inr (Some (''carbohydrates_100g'', val))
       else
     ebind (py_contains ''Total lipid'' name) (\<lambda>lipid.
     ebind (if lipid then Inr True else py_contains ''Fat'' name) (\<lambda>fat.
       if fat then Inr (Some (''fat_100g'', val))
       else
     ebind (py_contains ''Sugars'' name) (\<lambda>sugars.
       if sugars then Inr (Some (''sugars_100g'', val))
       else
     ebind (py_contains ''Fiber'' name) (\<lambda>fiber.
       if fiber then Inr (Some (''fiber_100g'', val))
       else
     ebind (py_contains ''Sodium'' name) (\<lambda>sodium.
       if sodium
       then ebind (py_num val) (\<lambda>x.
            ebind (py_div E x 1000) (\<lambda>y.
            ebind (py_mul E y 2.5) (\<lambda>z. Inr (Some (''salt_100g'', PNum z)))))
       else Inr None)))))))))"

fun nutrient_loop ::
  "env \<Rightarrow> pyval list \<Rightarrow> (pyval \<times> pyval) list \<Rightarrow> error + (pyval \<times> pyval) list" where
  "nutrient_loop E [] nutrients = Inr nutrients"
| "nutrient_loop E (nutrient # rest) nutrients =
     ebind (dict_get nutrient ''nutrientName'' (PStr [])) (\<lambda>name.
     ebind (dict_get nutrient ''value'' (PNum 0)) (\<lambda>val.
     ebind (dict_get nutrient ''unitName'' (PStr [])) (\<lambda>unit.
     ebind (nutrient_slot E name val unit) (\<lambda>slot.
       nutrient_loop E rest
         (case slot of None \<Rightarrow> nutrients | Some (k, v) \<Rightarrow> dict_store nutrients (PStr k) v)))))"

text \<open>\<open>fetch_nutrition\<close> does not call \<open>raise_for_status\<close>: every reply with a JSON
  body is read.\<close>

definition attempt_unchecked :: "env \<Rightarrow> request \<Rightarrow> pyval prog" where
  "attempt_unchecked E rq w =
     (case net E (length (requests w)) rq of
        NoResponse \<Rightarrow> (Inl RequestError, w\<lparr>requests := requests w @ [rq]\<rparr>)
      | Reply ok body \<Rightarrow>
          (case body of
             None \<Rightarrow> (Inl RequestError, w\<lparr>requests := requests w @ [rq]\<rparr>)
           | Some v \<Rightarrow> (Inr v, w\<lparr>requests := requests w @ [rq]\<rparr>)))"

definition fetch_nutrition :: "env \<Rightarrow> pyval \<Rightarrow> pyval prog" where
  "fetch_nutrition E product_name =
     pcatch
       (pbind (attempt_unchecked E (UsdaSearch (usda_api_key E) product_name)) (\<lambda>data.
        pbind (plift (dict_get data ''foods'' PNone)) (\<lambda>foods.
          if truthy foods
          then plift
                 (ebind (dict_item data ''foods'') (\<lambda>fs.
                  ebind (py_index0 fs) (\<lambda>food.
                  ebind (dict_get food ''foodNutrients'' (PList [])) (\<lambda>fn.
                  ebind (py_iter fn) (\<lambda>ns.
                  ebind (nutrient_loop E ns []) (\<lambda>nutrients. Inr (PDict nutrients)))))))
          else pret (PDict []))))
       (\<lambda>e. pbind (st_error (UsdaWarning e)) (\<lambda>u. pret (PDict [])))"

text \<open>The enrichment statements of \<open>main\<close> (lines 940-943, and again at 973-976
  and 1009-1012):
  \<open>not product.get('nutrients') or len(product.get('nutrients', {})) < 3\<close>, then
  \<open>product['nutrients'].update(usda_nutrients)\<close>.\<close>

definition needs_enrichment :: "pyval \<Rightarrow> error + bool" where
  "needs_enrichment product =
     ebind (dict_get product ''nutrients'' PNone) (\<lambda>n.
       if \<not> truthy n then Inr True
       else ebind (dict_get product ''nutrients'' (PDict [])) (\<lambda>n'.
            ebind (py_len n') (\<lambda>l. Inr (l < 3))))"

definition merge_nutrients :: "pyval \<Rightarrow> pyval \<Rightarrow> error + pyval" where
  "merge_nutrients product usda_nutrients =
     ebind (dict_item product ''nutrients'') (\<lambda>n.
       case n of
         PDict kvs \<Rightarrow>
           (case usda_nutrients of
              PDict u \<Rightarrow>
                (case product of
                   PDict entries \<Rightarrow>
                     Inr (PDict (dict_store entries (PStr ''nutrients'') (PDict (dict_update kvs u))))
                 | _ \<Rightarrow> Inl TypeError)
            | _ \<Rightarrow> Inl TypeError)
       | _ \<Rightarrow> Inl AttributeError)"

definition enrich :: "env \<Rightarrow> pyval \<Rightarrow> pyval prog" where
  "enrich E product =
     pbind (plift (needs_enrichment product)) (\<lambda>needed.
       if needed
       then pbind (plift (dict_get product ''name'' (PStr []))) (\<lambda>name.
            pbind (fetch_nutrition E name) (\<lambda>usda_nutrients.
              if truthy usda_nutrients then plift (merge_nutrients product usda_nutrients)
              else pret product))
       else pret product)"

text \<open>The statements of \<open>main\<close> for a scanned barcode (lines 934-952): the product
  found, enriched, becomes the session's product and heads the history unless it is
  already in it.\<close>

definition show_product :: "pyval \<Rightarrow> unit prog" where
  "show_product product w =
     (Inr (),
      w\<lparr>product_data := product,
        scan_history := (if product \<in> set (scan_history w) then scan_history w
                         else product # scan_history w)\<rparr>)"

definition scan_barcode :: "env \<Rightarrow> string \<Rightarrow> unit prog" where
  "scan_barcode E barcode =
     pbind (fetch_product E barcode) (\<lambda>product.
       if truthy product
       then pbind (enrich E product) show_product
       else st_error (NoProductFound barcode))"

text \<open>
  \<open>main\<close> as it is shipped does not get that far. It builds its helpers first (line
  898-903), and the constructor of barcodescanner.py's \<open>AIAnalyzer\<close> begins by calling
  \<open>get_api_key\<close>, a name the module neither defines nor imports: NameError. The
  lookup and the enrichment above are the page's code as written, run from where they
  would start.
\<close>

definition analyzer_init :: "unit prog" where
  "analyzer_init = praise NameError"

definition scanner_main :: "env \<Rightarrow> string \<Rightarrow> unit prog" where
  "scanner_main E barcode = pbind analyzer_init (\<lambda>u. scan_barcode E barcode)"

section \<open>The rating of a generated analysis (AIAnalyzer._extract_rating)\<close>

text \<open>
  \<open>re.search\<close> with the rating pattern and \<open>float\<close> are taken from outside:
  \<open>re_search text\<close> is group 1 of the first match, if there is a match, and
  \<open>py_float\<close> reads a decimal literal.
\<close>

definition extract_rating :: "(string \<Rightarrow> string option) \<Rightarrow> (string \<Rightarrow> real) \<Rightarrow> string \<Rightarrow> real" where
  "extract_rating re_search py_float text =
     (case re_search text of
        Some g \<Rightarrow> (let v = py_float g in if 0 \<le> v \<and> v \<le> 10 then v else 5)
      | None \<Rightarrow> 5)"

section \<open>Notions the properties are stated with\<close>

text \<open>A response on which \<open>_get\<close>'s attempt raises.\<close>

definition failing :: "response \<Rightarrow> bool" where
  "failing r = (case r of NoResponse \<Rightarrow> True | Reply ok body \<Rightarrow> \<not> ok \<or> body = None)"

text \<open>What \<open>_load_cache(key, src)\<close> returns in a world, with the default age limit.\<close>

definition cached :: "env \<Rightarrow> string \<Rightarrow> string \<Rightarrow> world \<Rightarrow> pyval" where
  "cached E key src w =
     (case fst (load_cache E key src 86400 w) of Inr c \<Rightarrow> c | Inl e \<Rightarrow> PNone)"


text \<open>The value of one nutrient key of a product dictionary of barcodescanner.py.\<close>

definition nutrient_value :: "pyval \<Rightarrow> string \<Rightarrow> pyval option" where
  "nutrient_value product k =
     (case dict_item product ''nutrients'' of
        Inl e \<Rightarrow> None
      | Inr n \<Rightarrow> (case dict_item n k of Inl e \<Rightarrow> None | Inr v \<Rightarrow> Some v))"

definition dict_keys :: "pyval \<Rightarrow> pyval list" where
  "dict_keys d = (case d of PDict kvs \<Rightarrow> map fst kvs | _ \<Rightarrow> [])"

text \<open>
  Test doubles: an environment whose endpoints give fixed responses, and a world with
  an empty cache directory on a healthy medium. The stub computes exactly; the runs
  below subtract whole numbers of seconds, on which float arithmetic is exact too. No
  dictionary of these runs has a number for a key, so the stub's \<open>num_str\<close> is
  never consulted.
\<close>

definition stub_env :: "response \<Rightarrow> response \<Rightarrow> response \<Rightarrow> env" where
  "stub_env off usda_search usda_food =
     \<lparr>md5 = (\<lambda>s. s),
      net = (\<lambda>n rq. case rq of
                       OffProduct b \<Rightarrow> off
                     | OffSearch q \<Rightarrow> NoResponse
                     | UsdaSearch k q \<Rightarrow> usda_search
                     | UsdaFood k f \<Rightarrow> usda_food),
      usda_api_key = PStr ''KEY'',
      py_sub = (\<lambda>a b. Inr (a - b)),
      py_div = (\<lambda>a b. Inr (a / b)),
      py_mul = (\<lambda>a b. Inr (a * b)),
      num_str = (\<lambda>x. ''0'')\<rparr>"

definition cold_world :: world where
  "cold_world =
     \<lparr>files = Map.empty, medium = Healthy, clock = 0, requests = [], sleeps = [],
      ui = [], product_data = PNone, chat_history = [], scan_history = []\<rparr>"

definition kettle_body :: pyval where
  "kettle_body =
     PDict [(PStr ''status'', PNum 1),
            (PStr ''product'',
             PDict [(PStr ''product_name'', PStr ''Kettle Chips''),
                    (PStr ''nutriments'', PDict [(PStr ''sugars_100g'', PNum 2)])])]"


definition usda_body :: pyval where
  "usda_body =
     PDict [(PStr ''foods'',
             PList [PDict [(PStr ''fdcId'', PNum 42),
                           (PStr ''description'', PStr ''KETTLE CHIPS''),
                           (PStr ''foodNutrients'',
                            PList [PDict [(PStr ''nutrientName'', PStr ''Sugars, total''),
                                          (PStr ''value'', PNum 5),
                                          (PStr ''unitName'', PStr ''G'')]])]])]"

definition dead_env :: env where
  "dead_env = stub_env NoResponse NoResponse NoResponse"

text \<open>A world whose caches hold entries written at time 0, two for barcode
  737628064502 and one for an analysis, read exactly 86400 seconds later.\<close>

definition boundary_world :: world where
  "boundary_world =
     cold_world
       \<lparr>files :=
          [cache_path dead_env ''737628064502'' ''off'' \<mapsto>
             Content (PDict [(PStr ''data'', kettle_body), (PStr ''cache_time'', PNum 0)]),
           ai_cache_path dead_env ''allergen'' ''Kettle Chips'' ''Kettle'' \<mapsto>
             Content (PDict [(PStr ''data'', PStr ''No allergens.''),
                             (PStr ''cache_time'', PNum 0)]),
           scanner_cache_file dead_env ''737628064502'' \<mapsto>
             Content (PDict [(PStr ''product'', PDict [(PStr ''name'', PStr ''Kettle Chips'')]),
                             (PStr ''timestamp'', PNum 0)])],
        clock := 86400\<rparr>"

text \<open>A world whose cache file for the barcode is damaged, on a medium that fails
  while writing.\<close>

definition corrupt_world :: world where
  "corrupt_world =
     cold_world\<lparr>files := [cache_path dead_env ''737628064502'' ''off'' \<mapsto> Unreadable],
                medium := WriteFails\<rparr>"

text \<open>The body an attempt returns when it does not raise.\<close>

definition reply_body :: "response \<Rightarrow> pyval" where
  "reply_body r = (case r of Reply ok (Some v) \<Rightarrow> v | _ \<Rightarrow> PNone)"

text \<open>What a lookup may change in the world: it adds requests, lets time pass, writes
  cache files and shows messages; it leaves the medium and the session as they are.
  \<open>quietly\<close> is the same, with the cache files untouched too.\<close>

definition extends :: "world \<Rightarrow> world \<Rightarrow> bool" where
  "extends w w' =
     (prefix (requests w) (requests w') \<and> clock w \<le> clock w' \<and> medium w' = medium w \<and>
      product_data w' = product_data w \<and> chat_history w' = chat_history w \<and>
      scan_history w' = scan_history w)"

definition quietly :: "world \<Rightarrow> world \<Rightarrow> bool" where
  "quietly w w' = (extends w w' \<and> files w' = files w)"

definition steps :: "(world \<Rightarrow> world \<Rightarrow> bool) \<Rightarrow> 'a prog \<Rightarrow> bool" where
  "steps R m = (\<forall>w. R w (snd (m w)))"



definition kettle_env :: env where
  "kettle_env = stub_env (Reply True (Some kettle_body)) (Reply True (Some usda_body)) NoResponse"

text \<open>What \<open>_extract_off\<close> makes of \<open>kettle_body\<close>.\<close>

definition kettle_info :: info where
  "kettle_info =
     \<lparr>i_name = PStr ''Kettle Chips'', i_brand = PStr ''Unknown Brand'',
      i_category = PStr ''Unknown'', i_origin = PStr ''Unknown'',
      i_details =
        PDict [(PStr ''ingredients'', PStr ''Not available''),
               (PStr ''ingredients_list'', PList []),
               (PStr ''nutriments'', PDict [(PStr ''sugars_100g'', PNum 2)]),
               (PStr ''nutrition_grades'', PStr []),
               (PStr ''nova_group'', PStr []),
               (PStr ''ecoscore_grade'', PStr []),
               (PStr ''packaging'', PStr ''Not specified''),
               (PStr ''manufacturing_places'', PStr ''Not specified''),
               (PStr ''additives_tags'', PList []),
               (PStr ''labels'', PStr []),
               (PStr ''allergens'', PList []),
               (PStr ''serving_size'', PStr ''Not specified''),
               (PStr ''stores'', PStr ''Not specified''),
               (PStr ''image_url'', PNone),
               (PStr ''traces'', PStr [])],
      i_image = PNone, i_allergens = PList []\<rparr>"

text \<open>A stub whose Open Food Facts answer says the product exists and carries none.\<close>

definition status_only_body :: pyval where
  "status_only_body = PDict [(PStr ''status'', PNum 1)]"

definition status_only_env :: env where
  "status_only_env = stub_env (Reply True (Some status_only_body)) NoResponse NoResponse"

definition poisoned_world :: world where
  "poisoned_world =
     cold_world
       \<lparr>files := [cache_path status_only_env ''737628064502'' ''off'' \<mapsto>
                    Content (PDict [(PStr ''data'', status_only_body),
                                    (PStr ''cache_time'', PNum 0)])],
        requests := [OffProduct ''737628064502''],
        ui := [OffError KeyError]\<rparr>"



text \<open>What \<open>fetch_product\<close> makes of \<open>kettle_body\<close>.\<close>

definition kettle_product :: pyval where
  "kettle_product =
     PDict [(PStr ''barcode'', PStr ''737628064502''),
            (PStr ''name'', PStr ''Kettle Chips''),
            (PStr ''brand'', PStr ''Unknown Brand''),
            (PStr ''category'', PStr ''Unknown''),
            (PStr ''image'', PNone),
            (PStr ''ingredients'', PStr ''Not available''),
            (PStr ''ingredients_list'', PList []),
            (PStr ''nutrients'', PDict [(PStr ''sugars_100g'', PNum 2)]),
            (PStr ''nutri_score'', PStr []),
            (PStr ''nova_group'', PNone),
            (PStr ''ecoscore'', PStr []),
            (PStr ''allergens'', PList []),
            (PStr ''additives'', PList []),
            (PStr ''labels'', PStr []),
            (PStr ''packaging'', PStr []),
            (PStr ''origin'', PStr ''Unknown'')]"


text \<open>An environment in which the subtraction of the stamp from the time overflows, as
  it does in Python for a stored integer beyond the floats.\<close>

definition overflow_env :: env where
  "overflow_env = dead_env\<lparr>py_sub := (\<lambda>a b. Inl OverflowError)\<rparr>"

text \<open>A record with three nutrient keys.\<close>

definition rich_product :: pyval where
  "rich_product =
     PDict [(PStr ''name'', PStr ''Kettle Chips''),
            (PStr ''nutrients'',
             PDict [(PStr ''sugars_100g'', PNum 2), (PStr ''fat_100g'', PNum 30),
                    (PStr ''salt_100g'', PNum 1)])]"


text \<open>A stub whose first attempt gets no response and whose later ones get the product.\<close>

definition flaky_env :: env where
  "flaky_env = kettle_env\<lparr>net := (\<lambda>n rq. if n = 0 then NoResponse
                                          else Reply True (Some kettle_body))\<rparr>"

section \<open>The cache: expiry, round trip, soft failure\<close>

lemmas prog_defs = pret_def praise_def plift_def pbind_def pcatch_def st_error_def

text \<open>
  C2, as amended. The age of an entry is what Python computes for \<open>now - stored_at\<close>,
  a float; where that subtraction is exact it is the difference itself. An entry of a
  trial.py cache (the fetcher's or the analyses') with payload \<open>d\<close> is returned
  exactly when its age is at most the limit; an entry of the barcodescanner.py cache
  with payload \<open>p\<close> is returned exactly when its age is less than 86400. In all of
  them the result is \<open>None\<close> once the age exceeds the limit, and when the subtraction
  raises, whatever the payload is.
\<close>

theorem cache_get_ttl:
  "(files w (cache_path E key src) = Some (Content (PDict kvs)) \<and>
      map_of kvs (PStr ''cache_time'') = Some (PNum t) \<and>
      map_of kvs (PStr ''data'') = Some d
      \<longrightarrow> (\<forall>age. py_sub E (clock w) t = Inr age \<longrightarrow>
             load_cache E key src ttl w = (Inr (if age \<le> ttl then d else PNone), w))
        \<and> (\<forall>e. py_sub E (clock w) t = Inl e \<longrightarrow>
             load_cache E key src ttl w = (Inr PNone, w)))
   \<and> (files w (ai_cache_path E atype pname bname) = Some (Content (PDict kvsa)) \<and>
      map_of kvsa (PStr ''cache_time'') = Some (PNum ta) \<and>
      map_of kvsa (PStr ''data'') = Some da
      \<longrightarrow> (\<forall>age. py_sub E (clock w) ta = Inr age \<longrightarrow>
             ai_load_cache E atype pname bname ttl w
               = (Inr (if age \<le> ttl then da else PNone), w))
        \<and> (\<forall>e. py_sub E (clock w) ta = Inl e \<longrightarrow>
             ai_load_cache E atype pname bname ttl w = (Inr PNone, w)))
   \<and> (files w (scanner_cache_file E barcode) = Some (Content (PDict kvs')) \<and>
      map_of kvs' (PStr ''timestamp'') = Some (PNum t') \<and>
      map_of kvs' (PStr ''product'') = Some p
      \<longrightarrow> (\<forall>age. py_sub E (clock w) t' = Inr age \<longrightarrow>
             scanner_load_cache E barcode w = (Inr (if age < 86400 then p else PNone), w))
        \<and> (\<forall>e. py_sub E (clock w) t' = Inl e \<longrightarrow>
             scanner_load_cache E barcode w = (Inr PNone, w)))"
  by (simp add: load_cache_def ai_load_cache_def load_try_def read_json_def dict_get_def
      py_num_def scanner_load_cache_def scanner_load_try_def)

lemma boundary_files:
  "files boundary_world (cache_path dead_env ''737628064502'' ''off'') =
     Some (Content (PDict [(PStr ''data'', kettle_body), (PStr ''cache_time'', PNum 0)]))"
  "files boundary_world (ai_cache_path dead_env ''allergen'' ''Kettle Chips'' ''Kettle'') =
     Some (Content (PDict [(PStr ''data'', PStr ''No allergens.''),
                           (PStr ''cache_time'', PNum 0)]))"
  "files boundary_world (scanner_cache_file dead_env ''737628064502'') =
     Some (Content (PDict [(PStr ''product'', PDict [(PStr ''name'', PStr ''Kettle Chips'')]),
                             (PStr ''timestamp'', PNum 0)]))"
  "clock boundary_world = 86400"
  by (simp_all add: boundary_world_def cold_world_def cache_path_def ai_cache_path_def
      scanner_cache_file_def CACHE_DIR_def SCANNER_CACHE_DIR_def)

lemma dead_env_sub: "py_sub dead_env a b = Inr (a - b)"
  by (simp add: dead_env_def stub_env_def)

lemma overflow_env_sub:
  "py_sub overflow_env a b = Inl OverflowError"
  "cache_path overflow_env key src = cache_path dead_env key src"
  by (simp_all add: overflow_env_def cache_path_def)

theorem cache_get_ttl_witness:
  "load_cache dead_env ''737628064502'' ''off'' 86400 boundary_world
     = (Inr kettle_body, boundary_world)
   \<and> load_cache overflow_env ''737628064502'' ''off'' 86400 boundary_world
     = (Inr PNone, boundary_world)
   \<and> ai_load_cache dead_env ''allergen'' ''Kettle Chips'' ''Kettle'' 86400 boundary_world
     = (Inr (PStr ''No allergens.''), boundary_world)
   \<and> scanner_load_cache dead_env ''737628064502'' boundary_world = (Inr PNone, boundary_world)"
  using cache_get_ttl[where w = boundary_world and E = dead_env and key = "''737628064502''"
      and src = "''off''" and t = 0 and d = kettle_body and ttl = 86400
      and kvs = "[(PStr ''data'', kettle_body), (PStr ''cache_time'', PNum 0)]"
      and atype = "''allergen''" and pname = "''Kettle Chips''" and bname = "''Kettle''"
      and ta = 0 and da = "PStr ''No allergens.''"
      and kvsa = "[(PStr ''data'', PStr ''No allergens.''), (PStr ''cache_time'', PNum 0)]"
      and barcode = "''737628064502''" and t' = 0
      and kvs' = "[(PStr ''product'', PDict [(PStr ''name'', PStr ''Kettle Chips'')]),
                   (PStr ''timestamp'', PNum 0)]"
      and p = "PDict [(PStr ''name'', PStr ''Kettle Chips'')]"]
    cache_get_ttl[where w = boundary_world and E = overflow_env and key = "''737628064502''"
      and src = "''off''" and t = 0 and d = kettle_body and ttl = 86400
      and kvs = "[(PStr ''data'', kettle_body), (PStr ''cache_time'', PNum 0)]"]
  by (simp add: boundary_files dead_env_sub overflow_env_sub)

text \<open>
  C2 as stated fails on the barcodescanner.py cache: an entry exactly 86400 seconds old
  satisfies \<open>now - stored_at \<le> ttl\<close> (the subtraction 86400 - 0 is exact), and the
  get does not return its payload.
\<close>

theorem scanner_cache_boundary_counterexample:
  "\<not> (fst (scanner_load_cache dead_env ''737628064502'' boundary_world)
         = Inr (PDict [(PStr ''name'', PStr ''Kettle Chips'')])
       \<longleftrightarrow> clock boundary_world - 0 \<le> 86400)"
  by (simp add: scanner_load_cache_def scanner_load_try_def read_json_def dict_get_def
      py_num_def boundary_files dead_env_sub)

lemma entry_stable:
  "json_image E payload = Inr payload' \<Longrightarrow>
   json_image E (PDict [(PStr ''data'', payload), (PStr ''cache_time'', PNum c)])
     = Inr (PDict [(PStr ''data'', payload'), (PStr ''cache_time'', PNum c)])"
  by (simp add: ebind_def json_key_def dict_update_def key_eq_def key_norm_def)

lemma save_cache_healthy:
  assumes "medium w = Healthy" and "json_image E payload = Inr payload'"
  shows "save_cache E key src payload w =
     (Inr (),
      w\<lparr>files := (files w)(cache_path E key src \<mapsto>
         Content (PDict [(PStr ''data'', payload'), (PStr ''cache_time'', PNum (clock w))]))\<rparr>)"
  using assms
  by (simp add: save_cache_def write_json_def prog_defs entry_stable del: json_image.simps)

text \<open>
  C3, as amended. What is stored is the JSON text of the payload, and what a get returns
  is what that text decodes to: the payload's JSON image. On a healthy medium and with
  a positive age limit, a put followed by a get for the same key and namespace returns
  the JSON image of the payload that was put; that is the payload itself when the
  payload is its own JSON image, as every value decoded from JSON is. \<open>dt\<close> is the
  time that passes between the two and \<open>age\<close> what Python computes for it; it is to
  be within the limit, as the age of an immediate get is.
\<close>

theorem put_then_get:
  assumes "medium w = Healthy" and "0 < ttl" and "0 \<le> dt"
      and "json_image E payload = Inr payload'"
      and "py_sub E (clock w + dt) (clock w) = Inr age" and "age \<le> ttl"
  shows "fst (load_cache E key src ttl (elapse dt (snd (save_cache E key src payload w))))
           = Inr payload'"
  using assms(5,6)
  by (simp add: load_cache_def load_try_def read_json_def dict_get_def py_num_def
      save_cache_healthy[OF assms(1,4)] elapse_def)

lemma kettle_body_stable: "json_image E kettle_body = Inr kettle_body"
  by (simp add: kettle_body_def ebind_def json_key_def dict_update_def key_eq_def key_norm_def)

theorem put_then_get_witness:
  "medium cold_world = Healthy \<and> (0::real) < 86400 \<and>
   json_image dead_env kettle_body = Inr kettle_body \<and>
   py_sub dead_env (clock cold_world + 0) (clock cold_world) = Inr 0 \<and>
   fst (load_cache dead_env ''737628064502'' ''off'' 86400
          (elapse 0 (snd (save_cache dead_env ''737628064502'' ''off'' kettle_body cold_world))))
     = Inr kettle_body"
proof -
  have h: "medium cold_world = Healthy" by (simp add: cold_world_def)
  have s: "py_sub dead_env (clock cold_world + 0) (clock cold_world) = Inr 0"
    by (simp add: dead_env_sub)
  show ?thesis
    using h s kettle_body_stable[of dead_env]
      put_then_get[OF h _ _ kettle_body_stable[of dead_env] s, of 86400 "''737628064502''" "''off''"]
    by simp
qed

text \<open>
  C3 as stated fails for a payload that \<open>json.dump\<close> accepts and does not give back:
  the dictionary \<open>{None: 'a'}\<close> is written with the key \<open>"null"\<close>, and the get that
  follows at once returns \<open>{'null': 'a'}\<close>.
\<close>

theorem put_then_get_counterexample:
  "medium cold_world = Healthy
   \<and> fst (save_cache dead_env ''737628064502'' ''off'' (PDict [(PNone, PStr ''a'')]) cold_world)
       = Inr ()
   \<and> fst (load_cache dead_env ''737628064502'' ''off'' 86400
          (snd (save_cache dead_env ''737628064502'' ''off'' (PDict [(PNone, PStr ''a'')])
                  cold_world)))
       = Inr (PDict [(PStr ''null'', PStr ''a'')])
   \<and> PDict [(PStr ''null'', PStr ''a'')] \<noteq> PDict [(PNone, PStr ''a'')]"
proof -
  have h: "medium cold_world = Healthy" by (simp add: cold_world_def)
  have j: "json_image dead_env (PDict [(PNone, PStr ''a'')]) = Inr (PDict [(PStr ''null'', PStr ''a'')])"
    by (simp add: ebind_def json_key_def dict_update_def key_eq_def key_norm_def)
  show ?thesis
    unfolding save_cache_healthy[OF h j]
    by (simp add: load_cache_def load_try_def read_json_def dict_get_def py_num_def
        dead_env_sub cold_world_def)
qed

lemma load_cache_never_raises: "\<exists>v. load_cache E key src ttl w = (Inr v, w)"
  by (simp add: load_cache_def split: option.splits sum.splits)

lemma ai_load_cache_never_raises: "\<exists>v. ai_load_cache E atype pname bname ttl w = (Inr v, w)"
  by (simp add: ai_load_cache_def split: option.splits sum.splits)

lemma save_cache_never_raises: "fst (save_cache E key src d w) = Inr ()"
  by (simp add: save_cache_def write_json_def prog_defs split: medium.splits sum.splits)

lemma ai_save_cache_never_raises: "fst (ai_save_cache E atype pname bname d w) = Inr ()"
  by (simp add: ai_save_cache_def write_json_def prog_defs split: medium.splits sum.splits)

lemma save_cache_open_fails: "medium w = OpenFails \<Longrightarrow> snd (save_cache E key src d w) = w"
  by (simp add: save_cache_def write_json_def prog_defs)

lemma save_cache_write_fails:
  "medium w = WriteFails \<Longrightarrow>
   load_cache E key src ttl (snd (save_cache E key src d w))
     = (Inr PNone, snd (save_cache E key src d w))"
  by (simp add: save_cache_def write_json_def prog_defs load_cache_def load_try_def read_json_def)

text \<open>
  C8. A get never raises and leaves the world as it is; when reading or decoding the
  file fails it returns \<open>None\<close>, which is what it returns when there is no file. A put
  never raises, whatever the medium does: when the file cannot be opened nothing
  changes, and when writing fails the next get is a miss. The same holds for the cache
  of the analyses.
\<close>

theorem cache_fails_soft:
  "(\<exists>v. load_cache E key src ttl w = (Inr v, w)) \<and>
   (\<forall>s e. files w (cache_path E key src) = Some s \<and> load_try E s (clock w) ttl = Inl e
      \<longrightarrow> load_cache E key src ttl w = (Inr PNone, w)) \<and>
   (files w (cache_path E key src) = None \<longrightarrow> load_cache E key src ttl w = (Inr PNone, w)) \<and>
   fst (save_cache E key src d w) = Inr () \<and>
   (medium w = OpenFails \<longrightarrow> snd (save_cache E key src d w) = w) \<and>
   (medium w = WriteFails \<longrightarrow>
      load_cache E key src ttl (snd (save_cache E key src d w))
        = (Inr PNone, snd (save_cache E key src d w))) \<and>
   (\<exists>v. ai_load_cache E atype pname bname ttl w = (Inr v, w)) \<and>
   fst (ai_save_cache E atype pname bname d w) = Inr ()"
proof -
  have miss: "\<forall>s e. files w (cache_path E key src) = Some s \<and> load_try E s (clock w) ttl = Inl e
      \<longrightarrow> load_cache E key src ttl w = (Inr PNone, w)"
    by (simp add: load_cache_def)
  have absent: "files w (cache_path E key src) = None
      \<longrightarrow> load_cache E key src ttl w = (Inr PNone, w)"
    by (simp add: load_cache_def)
  have open_fails: "medium w = OpenFails \<longrightarrow> snd (save_cache E key src d w) = w"
    by (simp add: save_cache_open_fails)
  have write_fails: "medium w = WriteFails \<longrightarrow>
      load_cache E key src ttl (snd (save_cache E key src d w))
        = (Inr PNone, snd (save_cache E key src d w))"
    by (simp add: save_cache_write_fails)
  show ?thesis
    by (intro conjI load_cache_never_raises miss absent save_cache_never_raises open_fails
        write_fails ai_load_cache_never_raises ai_save_cache_never_raises)
qed

theorem cache_fails_soft_witness:
  "load_cache dead_env ''737628064502'' ''off'' 86400 corrupt_world = (Inr PNone, corrupt_world)
   \<and> fst (save_cache dead_env ''737628064502'' ''off'' kettle_body corrupt_world) = Inr ()
   \<and> fst (load_cache dead_env ''737628064502'' ''off'' 86400
        (snd (save_cache dead_env ''737628064502'' ''off'' kettle_body corrupt_world))) = Inr PNone"
proof -
  have f: "files corrupt_world (cache_path dead_env ''737628064502'' ''off'') = Some Unreadable"
    by (simp add: corrupt_world_def)
  have l: "load_try dead_env Unreadable (clock corrupt_world) 86400 = Inl OSError"
    by (simp add: load_try_def read_json_def)
  have m: "medium corrupt_world = WriteFails"
    by (simp add: corrupt_world_def)
  show ?thesis
    using cache_fails_soft[of dead_env "''737628064502''" "''off''" 86400 corrupt_world kettle_body]
      f l m by simp
qed

section \<open>The rating of an analysis\<close>

text \<open>
  C10. Whatever the text, the rating extracted from it lies between 0 and 10, and it is
  5 when the pattern does not match.
\<close>

theorem extract_rating_range:
  "0 \<le> extract_rating re_search py_float text \<and>
   extract_rating re_search py_float text \<le> 10 \<and>
   (re_search text = None \<longrightarrow> extract_rating re_search py_float text = 5)"
  by (simp add: extract_rating_def Let_def split: option.splits)

theorem extract_rating_range_witness:
  "extract_rating (\<lambda>t. None) (\<lambda>g. 0) ''Healthy snack.'' = 5"
  using extract_rating_range[of "\<lambda>t. None" "\<lambda>g. 0" "''Healthy snack.''"] by simp

section \<open>Retries\<close>

lemma attempt_eq:
  "attempt E rq w =
     (if failing (net E (length (requests w)) rq) then Inl RequestError
      else Inr (reply_body (net E (length (requests w)) rq)),
      w\<lparr>requests := requests w @ [rq]\<rparr>)"
  by (auto simp add: attempt_def failing_def reply_body_def split: response.splits option.splits)


lemma http_get_all_fail:
  assumes "\<forall>n \<ge> length (requests w). failing (net E n rq)"
  shows "http_get E rq w =
     (Inl RequestError,
      w\<lparr>clock := clock w + 3, requests := requests w @ replicate 3 rq,
        sleeps := sleeps w @ [1, 2]\<rparr>)"
  using assms
  by (simp add: http_get_def prog_defs sleep_def attempt_eq numeral_3_eq_3)

lemma load_cache_cached: "load_cache E key src 86400 w = (Inr (cached E key src w), w)"
  by (simp add: cached_def load_cache_def split: option.splits sum.splits)

lemma absent_miss: "files w (cache_path E key src) = None \<Longrightarrow> cached E key src w = PNone"
  by (simp add: cached_def load_cache_def)

lemma off_dead:
  assumes "\<not> truthy (cached E bc ''off'' w)"
      and "\<forall>n \<ge> length (requests w). \<forall>rq. failing (net E n rq)"
  shows "fetch_from_open_food_facts E bc w =
     (Inr none7,
      w\<lparr>clock := clock w + 3, requests := requests w @ replicate 3 (OffProduct bc),
        sleeps := sleeps w @ [1, 2], ui := ui w @ [OffError RequestError]\<rparr>)"
  using assms
  by (simp add: fetch_from_open_food_facts_def prog_defs load_cache_cached http_get_all_fail)

lemma usda_dead:
  assumes "\<not> truthy (cached E bc ''usda'' w)"
      and "\<forall>n \<ge> length (requests w). \<forall>rq. failing (net E n rq)"
  shows "fetch_from_usda E bc w =
     (Inr none7,
      w\<lparr>clock := clock w + 3,
        requests := requests w @ replicate 3 (UsdaSearch (usda_api_key E) (PStr bc)),
        sleeps := sleeps w @ [1, 2], ui := ui w @ [UsdaError RequestError]\<rparr>)"
  using assms
  by (simp add: fetch_from_usda_def prog_defs load_cache_cached http_get_all_fail)

lemma both_dead:
  assumes "files w (cache_path E bc ''off'') = None" and "files w (cache_path E bc ''usda'') = None"
      and "\<forall>n \<ge> length (requests w). \<forall>rq. failing (net E n rq)"
  shows "process_barcode E bc w =
     (Inr (),
      w\<lparr>clock := clock w + 6,
        requests := requests w @ replicate 3 (OffProduct bc)
                      @ replicate 3 (UsdaSearch (usda_api_key E) (PStr bc)),
        sleeps := sleeps w @ [1, 2, 1, 2],
        ui := ui w @ [OffError RequestError, UsdaError RequestError, NoProductFound bc]\<rparr>)"
proof -
  let ?w1 = "w\<lparr>clock := clock w + 3, requests := requests w @ replicate 3 (OffProduct bc),
        sleeps := sleeps w @ [1, 2], ui := ui w @ [OffError RequestError]\<rparr>"
  have o: "\<not> truthy (cached E bc ''off'' w)"
    using assms(1) by (simp add: absent_miss)
  have m: "\<not> truthy (cached E bc ''usda'' ?w1)"
    using assms(2) by (simp add: absent_miss)
  have n: "\<forall>n \<ge> length (requests ?w1). \<forall>rq. failing (net E n rq)"
    using assms(3) by simp
  show ?thesis
    by (simp add: process_barcode_def pbind_def off_dead[OF o assms(3)] usda_dead[OF m n]
        none7_def st_error_def)
qed

lemma http_get_first:
  assumes "net E (length (requests w)) rq = Reply True (Some v)"
  shows "http_get E rq w = (Inr v, w\<lparr>requests := requests w @ [rq]\<rparr>)"
  using assms
  by (simp add: http_get_def prog_defs attempt_eq failing_def reply_body_def)

lemma http_get_second:
  assumes "failing (net E (length (requests w)) rq)"
      and "net E (length (requests w) + 1) rq = Reply True (Some v)"
  shows "http_get E rq w =
     (Inr v, w\<lparr>clock := clock w + 1, requests := requests w @ [rq, rq],
               sleeps := sleeps w @ [1]\<rparr>)"
  using assms
  by (simp add: http_get_def prog_defs sleep_def attempt_eq failing_def reply_body_def)

lemma http_get_third:
  assumes "failing (net E (length (requests w)) rq)"
      and "failing (net E (length (requests w) + 1) rq)"
      and "net E (length (requests w) + 2) rq = Reply True (Some v)"
  shows "http_get E rq w =
     (Inr v, w\<lparr>clock := clock w + 3, requests := requests w @ [rq, rq, rq],
               sleeps := sleeps w @ [1, 2]\<rparr>)"
  using assms
  by (simp add: http_get_def prog_defs sleep_def attempt_eq failing_def reply_body_def)

lemma http_get_none:
  assumes "failing (net E (length (requests w)) rq)"
      and "failing (net E (length (requests w) + 1) rq)"
      and "failing (net E (length (requests w) + 2) rq)"
  shows "http_get E rq w =
     (Inl RequestError, w\<lparr>clock := clock w + 3, requests := requests w @ [rq, rq, rq],
                          sleeps := sleeps w @ [1, 2]\<rparr>)"
  using assms
  by (simp add: http_get_def prog_defs sleep_def attempt_eq)

text \<open>
  C4, as amended. An attempt fails when no response arrives, the status is not a
  success or the body is not JSON. A call of \<open>_get\<close> returns the body of its first
  attempt when that succeeds, with no delay; when the first attempt fails it sleeps 1
  second and returns the body of the second if that succeeds; when the second fails
  too it sleeps 2 seconds and returns the body of the third if that succeeds; and when
  the third fails it raises at once: three attempts, delays of 1 and 2 seconds, no
  third delay. When neither cache has an entry for the barcode and every attempt fails,
  \<open>process_barcode\<close> returns normally after three attempts on Open Food Facts and three
  on USDA, having slept 1, 2, 1, 2 seconds, reports that no product was found, and
  leaves the cache files and the session's product as they were.
\<close>

theorem retry_policy:
  "(net E (length (requests w)) rq = Reply True (Some v)
      \<longrightarrow> http_get E rq w = (Inr v, w\<lparr>requests := requests w @ [rq]\<rparr>))
   \<and> (failing (net E (length (requests w)) rq) \<and>
       net E (length (requests w) + 1) rq = Reply True (Some v)
      \<longrightarrow> http_get E rq w =
            (Inr v, w\<lparr>clock := clock w + 1, requests := requests w @ [rq, rq],
                      sleeps := sleeps w @ [1]\<rparr>))
   \<and> (failing (net E (length (requests w)) rq) \<and>
       failing (net E (length (requests w) + 1) rq) \<and>
       net E (length (requests w) + 2) rq = Reply True (Some v)
      \<longrightarrow> http_get E rq w =
            (Inr v, w\<lparr>clock := clock w + 3, requests := requests w @ [rq, rq, rq],
                      sleeps := sleeps w @ [1, 2]\<rparr>))
   \<and> (failing (net E (length (requests w)) rq) \<and>
       failing (net E (length (requests w) + 1) rq) \<and>
       failing (net E (length (requests w) + 2) rq)
      \<longrightarrow> http_get E rq w =
            (Inl RequestError,
             w\<lparr>clock := clock w + 3, requests := requests w @ [rq, rq, rq],
               sleeps := sleeps w @ [1, 2]\<rparr>))
   \<and> (files w (cache_path E bc ''off'') = None \<and> files w (cache_path E bc ''usda'') = None \<and>
       (\<forall>n \<ge> length (requests w). \<forall>rq. failing (net E n rq))
      \<longrightarrow> process_barcode E bc w =
           (Inr (),
            w\<lparr>clock := clock w + 6,
              requests := requests w @ replicate 3 (OffProduct bc)
                            @ replicate 3 (UsdaSearch (usda_api_key E) (PStr bc)),
              sleeps := sleeps w @ [1, 2, 1, 2],
              ui := ui w @ [OffError RequestError, UsdaError RequestError,
                            NoProductFound bc]\<rparr>))"
  using http_get_first http_get_second http_get_third http_get_none both_dead by blast

lemma dead_env_fails: "failing (net dead_env n rq)"
  by (simp add: dead_env_def stub_env_def failing_def split: request.splits)


theorem retry_policy_witness:
  "http_get flaky_env (OffProduct ''737628064502'') cold_world =
     (Inr kettle_body,
      cold_world\<lparr>clock := 1,
                 requests := [OffProduct ''737628064502'', OffProduct ''737628064502''],
                 sleeps := [1]\<rparr>)
   \<and> process_barcode dead_env ''737628064502'' cold_world =
     (Inr (),
      cold_world
        \<lparr>clock := 6,
         requests := replicate 3 (OffProduct ''737628064502'')
                       @ replicate 3 (UsdaSearch (PStr ''KEY'') (PStr ''737628064502'')),
         sleeps := [1, 2, 1, 2],
         ui := [OffError RequestError, UsdaError RequestError,
                NoProductFound ''737628064502'']\<rparr>)"
proof -
  have k: "usda_api_key dead_env = PStr ''KEY''"
    by (simp add: dead_env_def stub_env_def)
  have c: "clock cold_world = 0" "requests cold_world = []" "sleeps cold_world = []"
    "ui cold_world = []" "files cold_world = Map.empty"
    by (simp_all add: cold_world_def)
  have f: "failing (net flaky_env 0 (OffProduct ''737628064502''))"
    "net flaky_env (Suc 0) (OffProduct ''737628064502'') = Reply True (Some kettle_body)"
    by (simp_all add: flaky_env_def failing_def)
  show ?thesis
    using retry_policy[where E = dead_env and rq = "OffProduct ''737628064502''"
        and w = cold_world and bc = "''737628064502''"]
      retry_policy[where E = flaky_env and rq = "OffProduct ''737628064502''"
        and w = cold_world and v = kettle_body]
    by (simp add: dead_env_fails k c f)
qed

text \<open>
  C4 as stated fails: a call that fails three times has slept twice, 1 and 2 seconds;
  there is no third delay of 3 seconds.
\<close>

theorem backoff_counterexample:
  "sleeps (snd (http_get dead_env (OffProduct ''737628064502'') cold_world)) = [1, 2]
   \<and> sleeps (snd (http_get dead_env (OffProduct ''737628064502'') cold_world)) \<noteq> [1, 2, 3]"
  by (simp add: http_get_all_fail dead_env_fails cold_world_def)

section \<open>What a lookup may change\<close>

lemma extends_refl: "extends w w"
  by (simp add: extends_def)

lemma extends_trans: "extends a b \<Longrightarrow> extends b c \<Longrightarrow> extends a c"
  by (auto simp add: extends_def)

lemma quietly_refl: "quietly w w"
  by (simp add: quietly_def extends_refl)

lemma quietly_trans: "quietly a b \<Longrightarrow> quietly b c \<Longrightarrow> quietly a c"
  by (auto simp add: quietly_def intro: extends_trans)


lemma steps_pbind:
  assumes "\<And>a b c. R a b \<Longrightarrow> R b c \<Longrightarrow> R a c" and "steps R m" and "\<And>v. steps R (f v)"
  shows "steps R (pbind m f)"
  unfolding steps_def
proof
  fix w
  obtain r w' where mw: "m w = (r, w')" by (cases "m w")
  have 1: "R w w'" using assms(2) mw by (auto simp add: steps_def dest: spec[of _ w])
  show "R w (snd (pbind m f w))"
  proof (cases r)
    case (Inl e)
    then show ?thesis using 1 mw by (simp add: pbind_def)
  next
    case (Inr v)
    have "R w' (snd (f v w'))" using assms(3)[of v] by (simp add: steps_def)
    then show ?thesis using 1 mw Inr assms(1) by (auto simp add: pbind_def)
  qed
qed

lemma steps_pcatch:
  assumes "\<And>a b c. R a b \<Longrightarrow> R b c \<Longrightarrow> R a c" and "steps R m" and "\<And>e. steps R (h e)"
  shows "steps R (pcatch m h)"
  unfolding steps_def
proof
  fix w
  obtain r w' where mw: "m w = (r, w')" by (cases "m w")
  have 1: "R w w'" using assms(2) mw by (auto simp add: steps_def dest: spec[of _ w])
  show "R w (snd (pcatch m h w))"
  proof (cases r)
    case (Inr v)
    then show ?thesis using 1 mw by (simp add: pcatch_def)
  next
    case (Inl e)
    have "R w' (snd (h e w'))" using assms(3)[of e] by (simp add: steps_def)
    then show ?thesis using 1 mw Inl assms(1) by (auto simp add: pcatch_def)
  qed
qed

lemmas qt_pbind = steps_pbind[of quietly, OF quietly_trans]
lemmas qt_pcatch = steps_pcatch[of quietly, OF quietly_trans]

lemma qt_basic:
  "steps quietly (pret v)" "steps quietly (praise e)" "steps quietly (plift r)"
  "steps quietly (st_error msg)" "0 \<le> secs \<Longrightarrow> steps quietly (sleep secs)"
  "steps quietly (attempt E rq)" "steps quietly (attempt_unchecked E rq)"
  "steps quietly (load_cache E key src ttl)"
  "steps quietly (scanner_load_cache E key)"
  by (auto simp add: steps_def quietly_def extends_def prog_defs sleep_def attempt_eq
      attempt_unchecked_def load_cache_def scanner_load_cache_def
      split: option.splits sum.splits response.splits)



lemma qt_get_loop: "steps quietly (get_loop E rq is)"
  by (induction "is") (auto intro!: qt_pcatch qt_pbind qt_basic)

lemma qt_http_get: "steps quietly (http_get E rq)"
  unfolding http_get_def by (rule qt_get_loop)





section \<open>Fallback to the secondary source\<close>





text \<open>The definitions a concrete run is evaluated with.\<close>

lemmas model_defs =
  fetch_from_open_food_facts_def fetch_from_usda_def process_barcode_def extract_off_def
  extract_usda_def extract_usda_try_def off_details_def off_category_def strip_en_list_def
  product_obj_def store_product_def http_get_def attempt_eq sleep_def failing_def reply_body_def
  load_cache_def load_try_def read_json_def save_cache_def write_json_def cache_path_def
  CACHE_DIR_def dict_get_def dict_item_def py_num_def py_eq_1_def py_iter_def py_index0_def
  str_method_def ebind_def none7_def stub_env_def cold_world_def
  py_contains_def dict_setitem_def hashable_def key_eq_def key_norm_def
  json_key_def dict_update_def





section \<open>Repeated resolution\<close>




















lemmas scanner_defs =
  fetch_product_def scanner_result_def scanner_tags_def scanner_load_cache_def
  scanner_load_try_def scanner_save_cache_def scanner_cache_file_def get_cache_key_def
  SCANNER_CACHE_DIR_def py_upper_def enrich_def needs_enrichment_def py_len_def
  fetch_nutrition_def attempt_unchecked_def nutrient_slot_def is_substring_def
  merge_nutrients_def dict_update_def nutrient_value_def map_err.simps

lemma kettle_scanned:
  "fetch_product kettle_env ''737628064502'' cold_world =
     (Inr kettle_product,
      cold_world
        \<lparr>files := [scanner_cache_file kettle_env ''737628064502'' \<mapsto>
                     Content (PDict [(PStr ''product'', kettle_product),
                                     (PStr ''timestamp'', PNum 0)])],
         requests := [OffProduct ''737628064502'']\<rparr>)"
  by (simp add: scanner_defs model_defs prog_defs kettle_env_def kettle_body_def kettle_product_def)

lemma kettle_first:
  "fetch_from_open_food_facts kettle_env ''737628064502'' cold_world =
     (Inr kettle_info,
      cold_world
        \<lparr>files := [cache_path kettle_env ''737628064502'' ''off'' \<mapsto>
                     Content (PDict [(PStr ''data'', kettle_body), (PStr ''cache_time'', PNum 0)])],
         requests := [OffProduct ''737628064502'']\<rparr>)"
  by (simp add: model_defs prog_defs kettle_env_def kettle_body_def kettle_info_def)





section \<open>What is written to the cache\<close>

lemma no_write_without_status_1:
  assumes "files (snd (fetch_from_open_food_facts E bc w)) \<noteq> files w"
  shows "\<exists>data wg s. http_get E (OffProduct bc) w = (Inr data, wg) \<and>
           dict_get data ''status'' PNone = Inr s \<and> py_eq_1 s"
proof -
  obtain r wg where g: "http_get E (OffProduct bc) w = (r, wg)"
    by (cases "http_get E (OffProduct bc) w")
  have "quietly w wg"
    using qt_http_get[of E "OffProduct bc"] g by (auto simp add: steps_def dest: spec[of _ w])
  then have f: "files wg = files w"
    by (simp add: quietly_def)
  show ?thesis
    using assms f g
    by (auto simp add: fetch_from_open_food_facts_def prog_defs load_cache_cached
        split: sum.splits if_splits)
qed

text \<open>
  C9 at a response that is JSON, has status 1 and no product. trial.py writes the
  response to the cache before it extracts the product: the lookup fails, showing the
  KeyError, and returns the empty tuple, and the cache file is there. The next lookup
  reads it back and raises the KeyError to its caller, outside any \<open>try\<close>, without
  asking the network; \<open>process_barcode\<close> raises with it. barcodescanner.py on the
  same response builds the record first and writes nothing.
\<close>

theorem status_only_body_is_cached:
  "fetch_from_open_food_facts status_only_env ''737628064502'' cold_world
     = (Inr none7, poisoned_world)
   \<and> files poisoned_world \<noteq> files cold_world
   \<and> fetch_from_open_food_facts status_only_env ''737628064502'' poisoned_world
     = (Inl KeyError, poisoned_world)
   \<and> fst (process_barcode status_only_env ''737628064502'' poisoned_world) = Inl KeyError
   \<and> fetch_product status_only_env ''737628064502'' cold_world
     = (Inr PNone, cold_world\<lparr>requests := [OffProduct ''737628064502''],
                              ui := [OffError KeyError]\<rparr>)"
proof -
  have 1: "fetch_from_open_food_facts status_only_env ''737628064502'' cold_world
     = (Inr none7, poisoned_world)"
    by (simp add: model_defs prog_defs status_only_env_def status_only_body_def poisoned_world_def)
  have 2: "files poisoned_world \<noteq> files cold_world"
    by (auto simp add: poisoned_world_def cold_world_def fun_eq_iff)
  have 3: "fetch_from_open_food_facts status_only_env ''737628064502'' poisoned_world
     = (Inl KeyError, poisoned_world)"
    by (simp add: model_defs prog_defs status_only_env_def status_only_body_def poisoned_world_def)
  have 4: "fst (process_barcode status_only_env ''737628064502'' poisoned_world) = Inl KeyError"
    by (simp add: process_barcode_def pbind_def 3)
  have 5: "fetch_product status_only_env ''737628064502'' cold_world
     = (Inr PNone, cold_world\<lparr>requests := [OffProduct ''737628064502''],
                              ui := [OffError KeyError]\<rparr>)"
    by (simp add: fetch_product_def scanner_load_cache_def attempt_eq failing_def reply_body_def
        dict_get_def dict_item_def py_eq_1_def ebind_def prog_defs status_only_env_def
        status_only_body_def stub_env_def cold_world_def)
  show ?thesis using 1 2 3 4 5 by blast
qed

section \<open>Enrichment with USDA nutrients\<close>

lemma dict_store_lookup:
  "map_of (dict_store kvs k v) (PStr s) = (if k = PStr s then Some v else map_of kvs (PStr s))"
  by (induction kvs) (auto simp add: key_eq_def key_norm_def split: pyval.splits)

lemma dict_update_lookup:
  "map_of (dict_update kvs u) (PStr s) =
     (case map_of (rev u) (PStr s) of Some v \<Rightarrow> Some v | None \<Rightarrow> map_of kvs (PStr s))"
  unfolding dict_update_def
proof (induction u arbitrary: kvs)
  case Nil
  then show ?case by simp
next
  case (Cons a u)
  obtain k v where a: "a = (k, v)" by (cases a)
  show ?case
    by (simp add: a Cons.IH dict_store_lookup map_add_def split: option.splits)
qed

lemma map_of_rev_distinct: "distinct (map fst u) \<Longrightarrow> map_of (rev u) = map_of u"
  by (simp add: map_of_inject_set distinct_rev rev_map[symmetric])


lemma dict_store_keys:
  "map fst (dict_store kvs k v) =
     (if \<exists>k' \<in> set (map fst kvs). key_eq k' k then map fst kvs else map fst kvs @ [k])"
  by (induction kvs) (auto, force)

lemma dict_store_distinct:
  "distinct (map fst kvs) \<Longrightarrow> distinct (map fst (dict_store kvs k v))"
  by (auto simp add: dict_store_keys key_eq_def)

lemma nutrient_loop_distinct:
  "nutrient_loop E ns acc = Inr u \<Longrightarrow> distinct (map fst acc) \<Longrightarrow> distinct (map fst u)"
proof (induction ns arbitrary: acc)
  case Nil
  then show ?case by simp
next
  case (Cons n ns)
  from Cons.prems(1) obtain slot where
    r: "nutrient_loop E ns (case slot of None \<Rightarrow> acc | Some (k, v) \<Rightarrow> dict_store acc (PStr k) v) = Inr u"
    by (auto simp add: ebind_def split: sum.splits)
  have "distinct (map fst (case slot of None \<Rightarrow> acc | Some (k, v) \<Rightarrow> dict_store acc (PStr k) v))"
    using Cons.prems(2) by (auto simp add: dict_store_distinct split: option.splits)
  with r show ?case by (rule Cons.IH)
qed

lemma fetch_nutrition_dict:
  "\<exists>u w'. fetch_nutrition E name w = (Inr (PDict u), w') \<and> distinct (map fst u)"
proof -
  obtain r wa where a: "attempt_unchecked E (UsdaSearch (usda_api_key E) name) w = (r, wa)"
    by (cases "attempt_unchecked E (UsdaSearch (usda_api_key E) name) w")
  show ?thesis
    using a
    by (auto simp add: fetch_nutrition_def prog_defs ebind_def
        split: sum.splits dest: nutrient_loop_distinct)
qed

lemma merge_lookup:
  assumes "merge_nutrients product (PDict u) = Inr product'" and "distinct (map fst u)"
  shows "nutrient_value product' k =
           (case map_of u (PStr k) of Some v \<Rightarrow> Some v | None \<Rightarrow> nutrient_value product k)"
proof -
  from assms(1) obtain entries kvs where
      p: "product = PDict entries" and n: "map_of entries (PStr ''nutrients'') = Some (PDict kvs)"
      and p': "product' = PDict (dict_store entries (PStr ''nutrients'') (PDict (dict_update kvs u)))"
    by (auto simp add: merge_nutrients_def ebind_def dict_item_def
        split: pyval.splits option.splits sum.splits)
  show ?thesis
    by (simp add: p p' n nutrient_value_def dict_item_def dict_store_lookup dict_update_lookup
        map_of_rev_distinct[OF assms(2)] split: option.splits)
qed

lemma needs_enrichment_len:
  assumes "product = PDict entries" and "map_of entries (PStr ''nutrients'') = Some (PDict kvs)"
  shows "needs_enrichment product = Inr (length kvs < 3)"
  using assms
  by (cases kvs) (simp_all add: needs_enrichment_def dict_get_def ebind_def py_len_def)

lemma enrich_not_needed:
  "needs_enrichment product = Inr False \<Longrightarrow> enrich E product w = (Inr product, w)"
  by (simp add: enrich_def prog_defs)

lemma enrich_nothing_found:
  assumes "needs_enrichment product = Inr True"
      and "dict_get product ''name'' (PStr []) = Inr name"
      and "fetch_nutrition E name w = (Inr (PDict []), w')"
  shows "enrich E product w = (Inr product, w')"
  using assms by (simp add: enrich_def prog_defs)

lemma enrich_merges:
  assumes "product = PDict entries"
      and "map_of entries (PStr ''nutrients'') = Some (PDict kvs)" and "length kvs < 3"
      and "dict_get product ''name'' (PStr []) = Inr name"
      and "fetch_nutrition E name w = (Inr (PDict u), w')" and "u \<noteq> []"
  shows "\<exists>product'. enrich E product w = (Inr product', w') \<and>
           (\<forall>k. nutrient_value product' k =
                  (case map_of u (PStr k) of Some v \<Rightarrow> Some v
                   | None \<Rightarrow> nutrient_value product k)) \<and>
           (\<forall>f. f \<noteq> ''nutrients'' \<longrightarrow> dict_item product' f = dict_item product f)"
proof -
  let ?p = "PDict (dict_store entries (PStr ''nutrients'') (PDict (dict_update kvs u)))"
  have d: "distinct (map fst u)"
    using fetch_nutrition_dict[of E name w] assms(5) by auto
  have n: "needs_enrichment product = Inr True"
    using needs_enrichment_len[OF assms(1,2)] assms(3) by simp
  have m: "merge_nutrients product (PDict u) = Inr ?p"
    using assms(1,2) by (simp add: merge_nutrients_def ebind_def dict_item_def)
  have t: "truthy (PDict u)"
    using assms(6) by (cases u) simp_all
  have e: "enrich E product w = (Inr ?p, w')"
    using n assms(4,5) m t by (simp add: enrich_def prog_defs)
  have "\<forall>k. nutrient_value ?p k =
           (case map_of u (PStr k) of Some v \<Rightarrow> Some v | None \<Rightarrow> nutrient_value product k)"
    using merge_lookup[OF m d] by blast
  moreover have "\<forall>f. f \<noteq> ''nutrients'' \<longrightarrow> dict_item ?p f = dict_item product f"
    by (simp add: assms(1) dict_item_def dict_store_lookup)
  ultimately show ?thesis
    using e by blast
qed

lemma main_raises: "scanner_main E barcode w = (Inl NameError, w)"
  by (simp add: scanner_main_def analyzer_init_def pbind_def praise_def)

text \<open>
  C1, as amended. \<open>main\<close> of barcodescanner.py raises NameError while it builds its
  helpers, before any lookup, so the page never reaches its enrichment statements; the
  rest is about those statements as they are written. \<open>fetch_nutrition\<close> always
  returns a dictionary. For a record whose nutrients are a dictionary, enrichment is
  attempted exactly when it has fewer than three keys. When it is not attempted, and
  when USDA returns the empty dictionary, the record is returned as it is. When the
  nutrients have fewer than three keys and USDA returns a dictionary that is not
  empty, the two are merged with \<open>dict.update\<close>: every nutrient key of the USDA result
  then has the USDA value, whether the key was absent or present before, every other
  nutrient key has the value it had, and so has every other field of the record.
\<close>

theorem enrichment_overwrites:
  "scanner_main E barcode w = (Inl NameError, w)
   \<and> (\<exists>u w'. fetch_nutrition E name w = (Inr (PDict u), w'))
   \<and> (product = PDict entries \<and> map_of entries (PStr ''nutrients'') = Some (PDict kvs)
      \<longrightarrow> needs_enrichment product = Inr (length kvs < 3))
   \<and> (needs_enrichment product = Inr False \<longrightarrow> enrich E product w = (Inr product, w))
   \<and> (needs_enrichment product = Inr True \<and>
      dict_get product ''name'' (PStr []) = Inr name \<and>
      fetch_nutrition E name w = (Inr (PDict []), w')
      \<longrightarrow> enrich E product w = (Inr product, w'))
   \<and> (product = PDict entries \<and> map_of entries (PStr ''nutrients'') = Some (PDict kvs) \<and>
      length kvs < 3 \<and> dict_get product ''name'' (PStr []) = Inr name \<and>
      fetch_nutrition E name w = (Inr (PDict u), w') \<and> u \<noteq> []
      \<longrightarrow> (\<exists>product'. enrich E product w = (Inr product', w') \<and>
             (\<forall>k. nutrient_value product' k =
                    (case map_of u (PStr k) of Some v \<Rightarrow> Some v
                     | None \<Rightarrow> nutrient_value product k)) \<and>
             (\<forall>f. f \<noteq> ''nutrients'' \<longrightarrow> dict_item product' f = dict_item product f)))"
proof (intro conjI impI)
  show "scanner_main E barcode w = (Inl NameError, w)"
    by (rule main_raises)
next
  show "\<exists>u w'. fetch_nutrition E name w = (Inr (PDict u), w')"
    using fetch_nutrition_dict[of E name w] by blast
next
  assume "product = PDict entries \<and> map_of entries (PStr ''nutrients'') = Some (PDict kvs)"
  then show "needs_enrichment product = Inr (length kvs < 3)"
    using needs_enrichment_len by blast
next
  assume "needs_enrichment product = Inr False"
  then show "enrich E product w = (Inr product, w)"
    by (rule enrich_not_needed)
next
  assume "needs_enrichment product = Inr True \<and>
      dict_get product ''name'' (PStr []) = Inr name \<and>
      fetch_nutrition E name w = (Inr (PDict []), w')"
  then show "enrich E product w = (Inr product, w')"
    using enrich_nothing_found by blast
next
  assume "product = PDict entries \<and> map_of entries (PStr ''nutrients'') = Some (PDict kvs) \<and>
      length kvs < 3 \<and> dict_get product ''name'' (PStr []) = Inr name \<and>
      fetch_nutrition E name w = (Inr (PDict u), w') \<and> u \<noteq> []"
  then show "\<exists>product'. enrich E product w = (Inr product', w') \<and>
             (\<forall>k. nutrient_value product' k =
                    (case map_of u (PStr k) of Some v \<Rightarrow> Some v
                     | None \<Rightarrow> nutrient_value product k)) \<and>
             (\<forall>f. f \<noteq> ''nutrients'' \<longrightarrow> dict_item product' f = dict_item product f)"
    using enrich_merges[of product entries kvs name E w u w'] by blast
qed

lemma kettle_usda:
  "fetch_nutrition kettle_env (PStr ''Kettle Chips'') cold_world
     = (Inr (PDict [(PStr ''sugars_100g'', PNum 5)]),
        cold_world\<lparr>requests := [UsdaSearch (PStr ''KEY'') (PStr ''Kettle Chips'')]\<rparr>)"
  by (simp add: scanner_defs model_defs prog_defs kettle_env_def usda_body_def)

lemma dead_usda:
  "fetch_nutrition dead_env (PStr ''Kettle Chips'') cold_world
     = (Inr (PDict []),
        cold_world\<lparr>requests := [UsdaSearch (PStr ''KEY'') (PStr ''Kettle Chips'')],
                   ui := [UsdaWarning RequestError]\<rparr>)"
  by (simp add: scanner_defs model_defs prog_defs dead_env_def)

lemma kettle_enrich:
  "\<exists>p' w'. enrich kettle_env kettle_product cold_world = (Inr p', w') \<and>
     nutrient_value p' ''sugars_100g'' = Some (PNum 5)"
  by (simp add: scanner_defs model_defs prog_defs kettle_env_def usda_body_def kettle_product_def
      dict_store.simps)

theorem enrichment_overwrites_witness:
  "needs_enrichment kettle_product = Inr True
   \<and> needs_enrichment rich_product = Inr False
   \<and> enrich kettle_env rich_product cold_world = (Inr rich_product, cold_world)
   \<and> enrich dead_env kettle_product cold_world
       = (Inr kettle_product,
          cold_world\<lparr>requests := [UsdaSearch (PStr ''KEY'') (PStr ''Kettle Chips'')],
                     ui := [UsdaWarning RequestError]\<rparr>)
   \<and> (\<exists>p'. enrich kettle_env kettle_product cold_world
           = (Inr p', cold_world\<lparr>requests :=
                                    [UsdaSearch (PStr ''KEY'') (PStr ''Kettle Chips'')]\<rparr>) \<and>
          (\<forall>k. nutrient_value p' k =
             (case map_of [(PStr ''sugars_100g'', PNum 5)] (PStr k) of
                Some v \<Rightarrow> Some v | None \<Rightarrow> nutrient_value kettle_product k)) \<and>
          dict_item p' ''name'' = Inr (PStr ''Kettle Chips''))"
proof -
  let ?kn = "[(PStr ''sugars_100g'', PNum 2)]"
  let ?rn = "[(PStr ''sugars_100g'', PNum 2), (PStr ''fat_100g'', PNum 30),
              (PStr ''salt_100g'', PNum 1)]"
  have n: "dict_get kettle_product ''name'' (PStr []) = Inr (PStr ''Kettle Chips'')"
     "dict_item kettle_product ''name'' = Inr (PStr ''Kettle Chips'')"
    by (simp_all add: dict_get_def dict_item_def kettle_product_def)
  have k: "kettle_product = PDict (case kettle_product of PDict es \<Rightarrow> es)"
      "map_of (case kettle_product of PDict es \<Rightarrow> es) (PStr ''nutrients'') = Some (PDict ?kn)"
    by (simp_all add: kettle_product_def)
  have r: "rich_product = PDict (case rich_product of PDict es \<Rightarrow> es)"
      "map_of (case rich_product of PDict es \<Rightarrow> es) (PStr ''nutrients'') = Some (PDict ?rn)"
    by (simp_all add: rich_product_def)
  have c1: "needs_enrichment kettle_product = Inr True"
    using enrichment_overwrites[where product = kettle_product and kvs = ?kn
        and entries = "case kettle_product of PDict es \<Rightarrow> es"] k
    by simp
  have c2: "needs_enrichment rich_product = Inr False"
    using enrichment_overwrites[where product = rich_product and kvs = ?rn
        and entries = "case rich_product of PDict es \<Rightarrow> es"] r
    by simp
  have c3: "enrich kettle_env rich_product cold_world = (Inr rich_product, cold_world)"
    using enrichment_overwrites[where product = rich_product and E = kettle_env
        and w = cold_world] c2
    by simp
  have c4: "enrich dead_env kettle_product cold_world
       = (Inr kettle_product,
          cold_world\<lparr>requests := [UsdaSearch (PStr ''KEY'') (PStr ''Kettle Chips'')],
                     ui := [UsdaWarning RequestError]\<rparr>)"
    using enrichment_overwrites[where product = kettle_product and E = dead_env
        and w = cold_world and name = "PStr ''Kettle Chips''"
        and w' = "cold_world\<lparr>requests := [UsdaSearch (PStr ''KEY'') (PStr ''Kettle Chips'')],
                     ui := [UsdaWarning RequestError]\<rparr>"] c1 n dead_usda
    by simp
  have "\<exists>p'. enrich kettle_env kettle_product cold_world
           = (Inr p', cold_world\<lparr>requests :=
                                    [UsdaSearch (PStr ''KEY'') (PStr ''Kettle Chips'')]\<rparr>) \<and>
          (\<forall>k. nutrient_value p' k =
             (case map_of [(PStr ''sugars_100g'', PNum 5)] (PStr k) of
                Some v \<Rightarrow> Some v | None \<Rightarrow> nutrient_value kettle_product k)) \<and>
          (\<forall>f. f \<noteq> ''nutrients'' \<longrightarrow> dict_item p' f = dict_item kettle_product f)"
    using enrichment_overwrites[where product = kettle_product and E = kettle_env
        and w = cold_world and name = "PStr ''Kettle Chips''" and kvs = ?kn
        and entries = "case kettle_product of PDict es \<Rightarrow> es"
        and u = "[(PStr ''sugars_100g'', PNum 5)]"
        and w' = "cold_world\<lparr>requests :=
                     [UsdaSearch (PStr ''KEY'') (PStr ''Kettle Chips'')]\<rparr>"] k n kettle_usda
    by simp
  then obtain p' where
      e: "enrich kettle_env kettle_product cold_world
           = (Inr p', cold_world\<lparr>requests :=
                                    [UsdaSearch (PStr ''KEY'') (PStr ''Kettle Chips'')]\<rparr>)"
      and a: "\<forall>k. nutrient_value p' k =
             (case map_of [(PStr ''sugars_100g'', PNum 5)] (PStr k) of
                Some v \<Rightarrow> Some v | None \<Rightarrow> nutrient_value kettle_product k)"
      and f: "\<forall>f. f \<noteq> ''nutrients'' \<longrightarrow> dict_item p' f = dict_item kettle_product f"
    by blast
  have "dict_item p' ''name'' = Inr (PStr ''Kettle Chips'')"
    using f n by simp
  with e a have c5: "\<exists>p'. enrich kettle_env kettle_product cold_world
           = (Inr p', cold_world\<lparr>requests :=
                                    [UsdaSearch (PStr ''KEY'') (PStr ''Kettle Chips'')]\<rparr>) \<and>
          (\<forall>k. nutrient_value p' k =
             (case map_of [(PStr ''sugars_100g'', PNum 5)] (PStr k) of
                Some v \<Rightarrow> Some v | None \<Rightarrow> nutrient_value kettle_product k)) \<and>
          dict_item p' ''name'' = Inr (PStr ''Kettle Chips'')"
    by blast
  show ?thesis
    using c1 c2 c3 c4 c5 by blast
qed

text \<open>
  C1 as stated fails on the enrichment statements: the record \<open>fetch_product\<close>
  builds for the barcode has one nutrient key, \<open>sugars_100g\<close> with value 2; USDA
  reports sugars too, and after the merge the key has the USDA value 5. The statements
  are run from the lookup on; \<open>main\<close> itself raises before it reaches them.
\<close>

theorem enrichment_overwrite_counterexample:
  "fst (fetch_product kettle_env ''737628064502'' cold_world) = Inr kettle_product
   \<and> needs_enrichment kettle_product = Inr True
   \<and> nutrient_value kettle_product ''sugars_100g'' = Some (PNum 2)
   \<and> (\<exists>p' w'. enrich kettle_env kettle_product cold_world = (Inr p', w') \<and>
         nutrient_value p' ''sugars_100g'' = Some (PNum 5))"
proof -
  have "needs_enrichment kettle_product = Inr True"
    by (simp add: needs_enrichment_def dict_get_def ebind_def py_len_def kettle_product_def)
  moreover have "nutrient_value kettle_product ''sugars_100g'' = Some (PNum 2)"
    by (simp add: nutrient_value_def dict_item_def kettle_product_def)
  moreover have "fst (fetch_product kettle_env ''737628064502'' cold_world) = Inr kettle_product"
    by (simp add: kettle_scanned)
  ultimately show ?thesis
    using kettle_enrich by blast
qed

section \<open>The shape of a resolved record\<close>

lemma scanner_result_keys:
  assumes "scanner_result bc pd = Inr r"
  shows "dict_keys r =
     [PStr ''barcode'', PStr ''name'', PStr ''brand'', PStr ''category'', PStr ''image'',
      PStr ''ingredients'', PStr ''ingredients_list'', PStr ''nutrients'', PStr ''nutri_score'',
      PStr ''nova_group'', PStr ''ecoscore'', PStr ''allergens'', PStr ''additives'',
      PStr ''labels'', PStr ''packaging'', PStr ''origin'']"
  using assms
  by (auto simp add: scanner_result_def ebind_def dict_keys_def split: sum.splits)

text \<open>
  C6, as amended. The record \<open>process_barcode\<close> stores has the same eight keys
  whichever source the tuple came from, and \<open>source\<close> is not one of them; the record
  \<open>fetch_product\<close> builds has sixteen keys, and \<open>source\<close> is not one of them.
\<close>

theorem record_has_no_source_field:
  "dict_keys (product_obj t bc) =
     [PStr ''product_name'', PStr ''brand_name'', PStr ''category'', PStr ''origin'',
      PStr ''details'', PStr ''image_url'', PStr ''allergens'', PStr ''barcode'']
   \<and> dict_item (product_obj t bc) ''source'' = Inl KeyError
   \<and> (scanner_result bc pd = Inr r \<longrightarrow>
        dict_keys r =
          [PStr ''barcode'', PStr ''name'', PStr ''brand'', PStr ''category'', PStr ''image'',
           PStr ''ingredients'', PStr ''ingredients_list'', PStr ''nutrients'',
           PStr ''nutri_score'', PStr ''nova_group'', PStr ''ecoscore'', PStr ''allergens'',
           PStr ''additives'', PStr ''labels'', PStr ''packaging'', PStr ''origin''])"
  using scanner_result_keys
  by (simp add: product_obj_def dict_keys_def dict_item_def)

theorem record_has_no_source_field_witness:
  "dict_keys kettle_product =
     [PStr ''barcode'', PStr ''name'', PStr ''brand'', PStr ''category'', PStr ''image'',
      PStr ''ingredients'', PStr ''ingredients_list'', PStr ''nutrients'', PStr ''nutri_score'',
      PStr ''nova_group'', PStr ''ecoscore'', PStr ''allergens'', PStr ''additives'',
      PStr ''labels'', PStr ''packaging'', PStr ''origin'']"
proof -
  have "scanner_result ''737628064502''
          (PDict [(PStr ''product_name'', PStr ''Kettle Chips''),
                  (PStr ''nutriments'', PDict [(PStr ''sugars_100g'', PNum 2)])])
        = Inr kettle_product"
    by (simp add: scanner_defs model_defs kettle_product_def)
  then show ?thesis
    using record_has_no_source_field[where t = kettle_info and bc = "''737628064502''"
        and pd = "PDict [(PStr ''product_name'', PStr ''Kettle Chips''),
                  (PStr ''nutriments'', PDict [(PStr ''sugars_100g'', PNum 2)])]"
        and r = kettle_product]
    by simp
qed

text \<open>
  C6 as stated fails: the record of a barcode resolved from Open Food Facts, by one
  request to it, has no \<open>source\<close> field to compare with anything.
\<close>

theorem source_field_counterexample:
  "requests (snd (process_barcode kettle_env ''737628064502'' cold_world))
     = [OffProduct ''737628064502'']
   \<and> product_data (snd (process_barcode kettle_env ''737628064502'' cold_world))
     = product_obj kettle_info ''737628064502''
   \<and> dict_item (product_data (snd (process_barcode kettle_env ''737628064502'' cold_world)))
        ''source'' = Inl KeyError"
proof -
  have t: "truthy (i_name kettle_info)" by (simp add: kettle_info_def)
  have "process_barcode kettle_env ''737628064502'' cold_world =
      store_product (product_obj kettle_info ''737628064502'')
        (cold_world
        \<lparr>files := [cache_path kettle_env ''737628064502'' ''off'' \<mapsto>
                     Content (PDict [(PStr ''data'', kettle_body), (PStr ''cache_time'', PNum 0)])],
         requests := [OffProduct ''737628064502'']\<rparr>)"
    using t by (simp add: process_barcode_def pbind_def pret_def kettle_first)
  then show ?thesis
    by (simp add: store_product_def product_obj_def dict_item_def)
qed

end
